theory Spec2Isabelle
  imports
    Complex_Main
    "HOL-Library.Product_Lexorder"
    "HOL-Library.Char_ord"
    "HOL-Library.List_Lexorder"
    "HOL-Library.Multiset"
begin

section \<open>Air-quality pipeline of progetto.py\<close>

text \<open>
  The development follows \<^verbatim>\<open>src/progetto.py\<close>: \<^verbatim>\<open>prepara_dati\<close> (loading of the
  yearly JSON files, cleaning, station registry, join) and the three queries that
  \<^verbatim>\<open>avvia_app\<close> runs on the joined table. A pandas DataFrame is a list of rows, a
  column operation is a map over the rows, and every exception of the source is a value
  \<open>Inl e\<close> of the result type.

  Modelling boundaries, stated once:
  \<^item> a float64 is a \<open>real\<close> (no rounding, no infinities); NaN and NaT are \<open>None\<close>;
  \<^item> the text parsers of pandas and Python (\<^verbatim>\<open>pd.to_numeric\<close>, \<^verbatim>\<open>pd.to_datetime\<close>,
    \<^verbatim>\<open>int\<close> on a string) are parameters, collected in the record \<open>analizzatore\<close>;
  \<^item> a JSON cell is null, a number or a string, and a number is a float64; every row of
    a yearly file carries the four keys the code reads (a key may hold null);
  \<^item> \<open>istante_di_testo\<close> is the reading of a string as a cell of the column at hand
    (pandas settles the format of a column on its first string);
  \<^item> the station ids of the GeoJSON file fit \<^verbatim>\<open>int64\<close>, so that the station frame has
    an integer key column;
  \<^item> a timestamp is a pair (year, offset inside the year), ordered lexicographically,
    which is the chronological order;
  \<^item> the drawing calls of streamlit and matplotlib are outside the model.
\<close>

subsection \<open>Data model\<close>

datatype cella = Nullo | Numero real | Testo string

type_synonym istante = "int \<times> nat"

definition anno_di :: "istante \<Rightarrow> int" where
  "anno_di t = fst t"

record analizzatore =
  numero_di_testo :: "string \<Rightarrow> real option"
  istante_di_testo :: "string \<Rightarrow> istante option"
  intero_di_testo :: "string \<Rightarrow> int option"

text \<open>One JSON object of a yearly file, as \<^verbatim>\<open>pd.DataFrame(contenuto)\<close> reads it.\<close>

record grezzo =
  g_inquinante :: string
  g_stazione_id :: cella
  g_data :: "string option"
  g_valore :: cella

text \<open>A row after the cleaning block (lines 69 to 72): \<^verbatim>\<open>stazione_id\<close> is still raw.\<close>

record pulito =
  p_inquinante :: string
  p_stazione_id :: cella
  p_data :: "istante option"
  p_anno :: "int option"
  p_valore :: "real option"

text \<open>A row after \<^verbatim>\<open>astype(int)\<close> (line 87).\<close>

record misura =
  m_inquinante :: string
  m_stazione_id :: int
  m_data :: "istante option"
  m_anno :: "int option"
  m_valore :: "real option"

record stazione =
  s_stazione_id :: int
  s_nome_stazione :: string

text \<open>A row of \<^verbatim>\<open>df_completo\<close>: the measurement columns and \<^verbatim>\<open>nome_stazione\<close>.\<close>

record unificato =
  inquinante :: string
  stazione_id :: int
  data :: "istante option"
  anno :: "int option"
  valore :: "real option"
  nome_stazione :: string

text \<open>A feature of the GeoJSON file: \<^verbatim>\<open>properties.id_amat\<close> and \<^verbatim>\<open>properties.nome\<close>.\<close>

record feature =
  id_amat :: cella
  nome :: string

datatype 'a esito_file = Assente | Corrotto | Contenuto 'a

datatype errore =
    FileNotFoundError string
  | JSONDecodeError string
  | NessunOggettoDaConcatenare
  | KeyError string
  | DataNonValida string
  | ConversioneIntera cella

subsection \<open>RecordLoader: the loop over the yearly files and \<^verbatim>\<open>pd.concat\<close>\<close>

definition file_json_annuali :: "string list" where
  "file_json_annuali =
     [''aria15.json'', ''aria16.json'', ''aria17.json'',
      ''aria18.json'', ''aria19.json'', ''aria20.json'',
      ''aria23.json'', ''aria24.json'', ''aria25.json'']"

definition avviso_assente :: "string \<Rightarrow> string" where
  "avviso_assente file_name = ''Attenzione: '' @ file_name @ '' non trovato!''"

text \<open>
  The loop of lines 58 to 64. The state is the list of warnings shown so far and
  \<^verbatim>\<open>lista_dati\<close>. Only \<^verbatim>\<open>FileNotFoundError\<close> is caught; a file that exists and is not
  JSON raises out of the loop, after the warnings already shown.
\<close>

fun carica :: "(string \<Rightarrow> grezzo list esito_file) \<Rightarrow> string list
    \<Rightarrow> string list \<times> grezzo list list
    \<Rightarrow> string list \<times> (errore + grezzo list list)" where
  "carica fs [] (avvisi, lista_dati) = (avvisi, Inr lista_dati)"
| "carica fs (file_name # resto) (avvisi, lista_dati) =
     (case fs file_name of
        Assente \<Rightarrow> carica fs resto (avvisi @ [avviso_assente file_name], lista_dati)
      | Corrotto \<Rightarrow> (avvisi, Inl (JSONDecodeError file_name))
      | Contenuto contenuto \<Rightarrow> carica fs resto (avvisi, lista_dati @ [contenuto]))"

text \<open>\<^verbatim>\<open>pd.concat\<close> raises \<^verbatim>\<open>ValueError: No objects to concatenate\<close> on an empty list.\<close>

definition pd_concat :: "'a list list \<Rightarrow> errore + 'a list" where
  "pd_concat lista_dati =
     (if lista_dati = [] then Inl NessunOggettoDaConcatenare else Inr (concat lista_dati))"

subsection \<open>RecordNormalizer: lines 69 to 72\<close>

text \<open>\<^verbatim>\<open>pd.to_numeric(..., errors="coerce")\<close> on one cell: a failure is NaN.\<close>

fun to_numeric :: "analizzatore \<Rightarrow> cella \<Rightarrow> real option" where
  "to_numeric az Nullo = None"
| "to_numeric az (Numero x) = Some x"
| "to_numeric az (Testo s) = numero_di_testo az s"

text \<open>
  \<^verbatim>\<open>pd.to_datetime\<close> with its default \<^verbatim>\<open>errors="raise"\<close> on one cell: null is NaT, a
  string that does not parse raises.
\<close>

fun to_datetime :: "analizzatore \<Rightarrow> string option \<Rightarrow> errore + istante option" where
  "to_datetime az None = Inr None"
| "to_datetime az (Some s) =
     (case istante_di_testo az s of
        None \<Rightarrow> Inl (DataNonValida s)
      | Some t \<Rightarrow> Inr (Some t))"

text \<open>Lines 69 to 71 on one row.\<close>

definition pulisci_riga :: "analizzatore \<Rightarrow> grezzo \<Rightarrow> errore + pulito" where
  "pulisci_riga az r =
     (case to_datetime az (g_data r) of
        Inl e \<Rightarrow> Inl e
      | Inr d \<Rightarrow> Inr \<lparr> p_inquinante = g_inquinante r,
                      p_stazione_id = g_stazione_id r,
                      p_data = d,
                      p_anno = map_option anno_di d,
                      p_valore = to_numeric az (g_valore r) \<rparr>)"

text \<open>A column operation that may raise: the first failing row decides.\<close>

fun per_riga :: "('a \<Rightarrow> errore + 'b) \<Rightarrow> 'a list \<Rightarrow> errore + 'b list" where
  "per_riga f [] = Inr []"
| "per_riga f (x # xs) =
     (case f x of
        Inl e \<Rightarrow> Inl e
      | Inr y \<Rightarrow> (case per_riga f xs of Inl e \<Rightarrow> Inl e | Inr ys \<Rightarrow> Inr (y # ys)))"

definition dropna_valore :: "pulito list \<Rightarrow> pulito list" where
  "dropna_valore df = filter (\<lambda>r. p_valore r \<noteq> None) df"

text \<open>
  The cleaning block. A frame without rows has no columns (every file held an empty
  list), and \<^verbatim>\<open>df["valore"]\<close> raises \<^verbatim>\<open>KeyError\<close>.
\<close>

definition pulizia :: "analizzatore \<Rightarrow> grezzo list \<Rightarrow> errore + pulito list" where
  "pulizia az df =
     (if df = [] then Inl (KeyError ''valore'')
      else (case per_riga (pulisci_riga az) df of
              Inl e \<Rightarrow> Inl e
            | Inr df' \<Rightarrow> Inr (dropna_valore df')))"

subsection \<open>StationRegistry: lines 75 to 84\<close>

definition troncamento :: "real \<Rightarrow> int" where
  "troncamento x = (if x < 0 then \<lceil>x\<rceil> else \<lfloor>x\<rfloor>)"

text \<open>
  Python's \<^verbatim>\<open>int\<close> on a JSON cell: null raises, a number is truncated towards zero, a
  string is parsed or raises. The result is an unbounded Python integer.
\<close>

fun py_int :: "analizzatore \<Rightarrow> cella \<Rightarrow> errore + int" where
  "py_int az Nullo = Inl (ConversioneIntera Nullo)"
| "py_int az (Numero x) = Inr (troncamento x)"
| "py_int az (Testo s) =
     (case intero_di_testo az s of
        None \<Rightarrow> Inl (ConversioneIntera (Testo s))
      | Some i \<Rightarrow> Inr i)"

definition stazione_di_feature :: "analizzatore \<Rightarrow> feature \<Rightarrow> errore + stazione" where
  "stazione_di_feature az feat =
     (case py_int az (id_amat feat) of
        Inl e \<Rightarrow> Inl e
      | Inr i \<Rightarrow> Inr \<lparr> s_stazione_id = i, s_nome_stazione = nome feat \<rparr>)"

definition carica_stazioni :: "analizzatore \<Rightarrow> feature list esito_file \<Rightarrow> errore + stazione list" where
  "carica_stazioni az geo =
     (case geo of
        Assente \<Rightarrow> Inl (FileNotFoundError ''dati_milano.json'')
      | Corrotto \<Rightarrow> Inl (JSONDecodeError ''dati_milano.json'')
      | Contenuto features \<Rightarrow> per_riga (stazione_di_feature az) features)"

subsection \<open>DatasetJoiner: lines 87 and 88\<close>

text \<open>
  The dtype of the column \<^verbatim>\<open>stazione_id\<close> is fixed when the frames are built and
  concatenated, before any row is dropped: \<^verbatim>\<open>object\<close> when some cell of the column is
  a string, \<^verbatim>\<open>float64\<close> otherwise.
\<close>

definition colonna_oggetto :: "grezzo list \<Rightarrow> bool" where
  "colonna_oggetto df =
     list_ex (\<lambda>g. case g_stazione_id g of Testo s \<Rightarrow> True | _ \<Rightarrow> False) df"

definition in_int64 :: "int \<Rightarrow> bool" where
  "in_int64 i \<longleftrightarrow> - (2 ^ 63) \<le> i \<and> i < 2 ^ 63"

text \<open>
  \<^verbatim>\<open>astype(int)\<close> on one cell of the column; the target is \<^verbatim>\<open>int64\<close>. A missing cell
  raises (NaN in a \<^verbatim>\<open>float64\<close> column, \<^verbatim>\<open>None\<close> in an \<^verbatim>\<open>object\<close> column). A number is
  truncated towards zero; when the truncation does not fit \<^verbatim>\<open>int64\<close>, the cast of a
  \<^verbatim>\<open>float64\<close> column does not raise and gives \<open>- 2 ^ 63\<close> (the result of the x86-64
  conversion), while the conversion of a Python number of an \<^verbatim>\<open>object\<close> column raises
  \<^verbatim>\<open>OverflowError\<close>. A string is in an \<^verbatim>\<open>object\<close> column: it is parsed by \<^verbatim>\<open>int\<close>,
  which raises when it does not parse, and the conversion raises when it does not fit.
\<close>

fun astype_cella :: "analizzatore \<Rightarrow> bool \<Rightarrow> cella \<Rightarrow> errore + int" where
  "astype_cella az oggetto Nullo = Inl (ConversioneIntera Nullo)"
| "astype_cella az oggetto (Numero x) =
     (if in_int64 (troncamento x) then Inr (troncamento x)
      else if oggetto then Inl (ConversioneIntera (Numero x))
      else Inr (- (2 ^ 63)))"
| "astype_cella az oggetto (Testo s) =
     (case intero_di_testo az s of
        None \<Rightarrow> Inl (ConversioneIntera (Testo s))
      | Some i \<Rightarrow> if in_int64 i then Inr i else Inl (ConversioneIntera (Testo s)))"

definition astype_int :: "analizzatore \<Rightarrow> bool \<Rightarrow> pulito \<Rightarrow> errore + misura" where
  "astype_int az oggetto r =
     (case astype_cella az oggetto (p_stazione_id r) of
        Inl e \<Rightarrow> Inl e
      | Inr i \<Rightarrow> Inr \<lparr> m_inquinante = p_inquinante r,
                      m_stazione_id = i,
                      m_data = p_data r,
                      m_anno = p_anno r,
                      m_valore = p_valore r \<rparr>)"

definition unisci :: "misura \<Rightarrow> stazione \<Rightarrow> unificato" where
  "unisci m s =
     \<lparr> inquinante = m_inquinante m,
       stazione_id = m_stazione_id m,
       data = m_data m,
       anno = m_anno m,
       valore = m_valore m,
       nome_stazione = s_nome_stazione s \<rparr>"

text \<open>
  \<^verbatim>\<open>pd.merge(df, df_stazioni, on="stazione_id")\<close>, an inner join: for each measurement,
  in the order of \<open>df\<close>, one row per station row with the same id. A station frame built
  from an empty list has no column \<^verbatim>\<open>stazione_id\<close>, and the merge raises \<^verbatim>\<open>KeyError\<close>.
\<close>

definition merge_righe :: "misura list \<Rightarrow> stazione list \<Rightarrow> unificato list" where
  "merge_righe df df_stazioni =
     concat (map (\<lambda>m. map (unisci m)
                        (filter (\<lambda>s. s_stazione_id s = m_stazione_id m) df_stazioni)) df)"

definition pd_merge :: "misura list \<Rightarrow> stazione list \<Rightarrow> errore + unificato list" where
  "pd_merge df df_stazioni =
     (if df_stazioni = [] then Inl (KeyError ''stazione_id'')
      else Inr (merge_righe df df_stazioni))"

text \<open>Lines 87 and 88 together: the cast of the key column, then the merge.\<close>

definition unione :: "analizzatore \<Rightarrow> bool \<Rightarrow> pulito list \<Rightarrow> stazione list
    \<Rightarrow> errore + unificato list" where
  "unione az oggetto df df_stazioni =
     (case per_riga (astype_int az oggetto) df of
        Inl e \<Rightarrow> Inl e
      | Inr df2 \<Rightarrow> pd_merge df2 df_stazioni)"

subsection \<open>\<^verbatim>\<open>prepara_dati\<close>\<close>

text \<open>
  The whole function, in the order of the source: the result is the warnings shown and
  either the exception that ended the run or \<^verbatim>\<open>df_completo\<close>.
\<close>

definition dopo_caricamento :: "analizzatore \<Rightarrow> feature list esito_file \<Rightarrow> grezzo list list
    \<Rightarrow> errore + unificato list" where
  "dopo_caricamento az geo lista_dati =
     (case pd_concat lista_dati of
        Inl e \<Rightarrow> Inl e
      | Inr df \<Rightarrow>
     (case pulizia az df of
        Inl e \<Rightarrow> Inl e
      | Inr df1 \<Rightarrow>
     (case carica_stazioni az geo of
        Inl e \<Rightarrow> Inl e
      | Inr df_stazioni \<Rightarrow> unione az (colonna_oggetto df) df1 df_stazioni)))"

definition prepara_dati :: "analizzatore \<Rightarrow> (string \<Rightarrow> grezzo list esito_file)
    \<Rightarrow> feature list esito_file \<Rightarrow> string list \<times> (errore + unificato list)" where
  "prepara_dati az fs geo =
     (case carica fs file_json_annuali ([], []) of
        (avvisi, Inl e) \<Rightarrow> (avvisi, Inl e)
      | (avvisi, Inr lista_dati) \<Rightarrow> (avvisi, dopo_caricamento az geo lista_dati))"

subsection \<open>Aggregator: the three queries of \<^verbatim>\<open>avvia_app\<close>\<close>

text \<open>\<^verbatim>\<open>Series.mean()\<close>: NaN cells are skipped; the mean of no value is NaN.\<close>

definition media :: "real option list \<Rightarrow> real option" where
  "media vs =
     (let xs = List.map_filter (\<lambda>v. v) vs
      in if xs = [] then None else Some (sum_list xs / real (length xs)))"

text \<open>
  \<^verbatim>\<open>df.groupby(key)["valore"].mean()\<close> with the defaults \<^verbatim>\<open>sort=True\<close> and
  \<^verbatim>\<open>dropna=True\<close>: one entry per key present, keys ascending, rows with a NaN key left out.
\<close>

definition groupby_mean :: "(unificato \<Rightarrow> 'k::linorder option) \<Rightarrow> unificato list
    \<Rightarrow> ('k \<times> real option) list" where
  "groupby_mean chiave df =
     map (\<lambda>k. (k, media (map valore (filter (\<lambda>r. chiave r = Some k) df))))
         (sort (remdups (List.map_filter chiave df)))"

text \<open>Lines 115 to 119.\<close>

definition media_annuale :: "unificato list \<Rightarrow> string \<Rightarrow> (int \<times> real option) list" where
  "media_annuale df inq = groupby_mean anno (filter (\<lambda>r. inquinante r = inq) df)"

text \<open>
  Lines 132 to 134: the word written in the remark, if any. A NaN \<^verbatim>\<open>delta\<close> is not
  below zero.
\<close>

definition tendenza :: "('k \<times> real option) list \<Rightarrow> string option" where
  "tendenza ma =
     (if length ma > 1 then
        (let delta = (case (snd (last ma), snd (hd ma)) of
                        (Some ultimo, Some primo) \<Rightarrow> Some (ultimo - primo)
                      | _ \<Rightarrow> None)
         in Some (if (case delta of Some d \<Rightarrow> d < 0 | None \<Rightarrow> False)
                  then ''diminuito'' else ''aumentato''))
      else None)"

text \<open>
  \<^verbatim>\<open>sort_values(ascending=False)\<close> on a series of means: NaN entries go last. The order
  among equal means is the one of a stable sort here; pandas does not fix it.
\<close>

definition sort_values_desc :: "('k \<times> real option) list \<Rightarrow> ('k \<times> real option) list" where
  "sort_values_desc xs =
     sort_key (\<lambda>p. - the (snd p)) (filter (\<lambda>p. snd p \<noteq> None) xs)
       @ filter (\<lambda>p. snd p = None) xs"

text \<open>Lines 142 to 148.\<close>

definition media_stazioni :: "unificato list \<Rightarrow> string \<Rightarrow> (string \<times> real option) list" where
  "media_stazioni df inq =
     take 5 (sort_values_desc
       (groupby_mean (\<lambda>r. Some (nome_stazione r)) (filter (\<lambda>r. inquinante r = inq) df)))"

text \<open>Line 171: \<^verbatim>\<open>df["anno"].max()\<close> skips NaN and is NaN when nothing is left.\<close>

definition anno_corrente :: "unificato list \<Rightarrow> int option" where
  "anno_corrente df =
     (let anni = List.map_filter anno df
      in if anni = [] then None else Some (Max (set anni)))"

text \<open>\<^verbatim>\<open>sort_values("data")\<close>: ascending, NaT last; equal timestamps as a stable sort.\<close>

definition sort_values_data :: "unificato list \<Rightarrow> unificato list" where
  "sort_values_data df =
     sort_key (\<lambda>r. the (data r)) (filter (\<lambda>r. data r \<noteq> None) df)
       @ filter (\<lambda>r. data r = None) df"

text \<open>
  The mask of lines 173 to 176. A comparison with NaN is false, so a row without a
  year, or any row when \<^verbatim>\<open>anno_corrente\<close> is NaN, is not selected.
\<close>

definition selezione :: "unificato list \<Rightarrow> string \<Rightarrow> string \<Rightarrow> unificato \<Rightarrow> bool" where
  "selezione df staz inq r \<longleftrightarrow>
     nome_stazione r = staz \<and> inquinante r = inq
       \<and> anno r \<noteq> None \<and> anno r = anno_corrente df"

definition df_focus :: "unificato list \<Rightarrow> string \<Rightarrow> string \<Rightarrow> unificato list" where
  "df_focus df staz inq = sort_values_data (filter (selezione df staz inq) df)"

text \<open>Lines 179 to 191: the chart of (data, valore), or the warning.\<close>

datatype vista = Grafico "(istante option \<times> real option) list" | Avviso string

definition dettaglio :: "unificato list \<Rightarrow> string \<Rightarrow> string \<Rightarrow> vista" where
  "dettaglio df staz inq =
     (let f = df_focus df staz inq
      in if f \<noteq> [] then Grafico (map (\<lambda>r. (data r, valore r)) f)
         else Avviso ''Nessun dato disponibile per la selezione effettuata.'')"

subsection \<open>Vocabulary of the statements\<close>

text \<open>The frames of the files that exist, in the order of the source list.\<close>

definition disponibili :: "(string \<Rightarrow> 'a esito_file) \<Rightarrow> string list \<Rightarrow> 'a list" where
  "disponibili fs files =
     List.map_filter (\<lambda>f. case fs f of Contenuto c \<Rightarrow> Some c | _ \<Rightarrow> None) files"

text \<open>
  The arithmetic average of the values of some rows, for the statements about means. It
  is used on rows whose values are present.
\<close>

definition media_aritmetica :: "unificato list \<Rightarrow> real" where
  "media_aritmetica righe = sum_list (map (\<lambda>r. the (valore r)) righe) / real (length righe)"

text \<open>The row that lines 69 to 71 make of a raw row whose timestamp parses or is null.\<close>

definition riga_pulita :: "analizzatore \<Rightarrow> grezzo \<Rightarrow> pulito" where
  "riga_pulita az g =
     \<lparr> p_inquinante = g_inquinante g,
       p_stazione_id = g_stazione_id g,
       p_data = (case g_data g of None \<Rightarrow> None | Some s \<Rightarrow> istante_di_testo az s),
       p_anno = (case g_data g of None \<Rightarrow> None
                 | Some s \<Rightarrow> map_option anno_di (istante_di_testo az s)),
       p_valore = to_numeric az (g_valore g) \<rparr>"

text \<open>
  A joined row \<open>u\<close> made of the cleaned measurement \<open>p\<close> and the station row \<open>s\<close>: the
  key of \<open>p\<close> casts to the id of \<open>u\<close>, which is the id of \<open>s\<close>; \<open>u\<close> has the name of
  \<open>s\<close> and the other columns of \<open>p\<close>.
\<close>

definition riga_unita :: "analizzatore \<Rightarrow> bool \<Rightarrow> pulito \<Rightarrow> stazione \<Rightarrow> unificato \<Rightarrow> bool" where
  "riga_unita az oggetto p s u \<longleftrightarrow>
     astype_cella az oggetto (p_stazione_id p) = Inr (stazione_id u)
     \<and> s_stazione_id s = stazione_id u
     \<and> nome_stazione u = s_nome_stazione s
     \<and> inquinante u = p_inquinante p
     \<and> data u = p_data p
     \<and> anno u = p_anno p
     \<and> valore u = p_valore p"

text \<open>
  A joined row \<open>u\<close> made of the raw row \<open>g\<close> of a yearly file and the station row \<open>s\<close>:
  the value of \<open>u\<close> is the coerced value of \<open>g\<close> and is present, its timestamp is the
  parsed timestamp of \<open>g\<close>, its year the year of that timestamp, its id the cast of the
  key of \<open>g\<close> and the id of \<open>s\<close>, and its name the name of \<open>s\<close>.
\<close>

definition riga_da_sorgente :: "analizzatore \<Rightarrow> bool \<Rightarrow> grezzo \<Rightarrow> stazione \<Rightarrow> unificato \<Rightarrow> bool" where
  "riga_da_sorgente az oggetto g s u \<longleftrightarrow>
     inquinante u = g_inquinante g
     \<and> valore u = to_numeric az (g_valore g) \<and> valore u \<noteq> None
     \<and> data u = (case g_data g of None \<Rightarrow> None | Some d \<Rightarrow> istante_di_testo az d)
     \<and> anno u = map_option anno_di (data u)
     \<and> astype_cella az oggetto (g_stazione_id g) = Inr (stazione_id u)
     \<and> s_stazione_id s = stazione_id u
     \<and> nome_stazione u = s_nome_stazione s"

subsection \<open>Sample inputs\<close>

text \<open>
  A small analyser that reads the few strings of the samples as pandas and Python read
  them, and rejects every other string.
\<close>

definition az_esempio :: analizzatore where
  "az_esempio =
     \<lparr> numero_di_testo = (\<lambda>s. if s = ''12.5'' then Some 12.5 else None),
       istante_di_testo = (\<lambda>s. if s = ''2020-03-01'' then Some (2020, 60)
                                else if s = ''2021-03-01'' then Some (2021, 59) else None),
       intero_di_testo = (\<lambda>s. if s = ''7'' then Some 7 else None) \<rparr>"

definition g1 :: grezzo where
  "g1 = \<lparr> g_inquinante = ''PM10'', g_stazione_id = Numero 1,
          g_data = Some ''2020-03-01'', g_valore = Numero 30 \<rparr>"

definition g2 :: grezzo where
  "g2 = \<lparr> g_inquinante = ''PM10'', g_stazione_id = Testo ''7'',
          g_data = Some ''2021-03-01'', g_valore = Testo ''12.5'' \<rparr>"

text \<open>Two of the nine yearly files exist.\<close>

definition fs_esempio :: "string \<Rightarrow> grezzo list esito_file" where
  "fs_esempio f =
     (if f = ''aria15.json'' then Contenuto [g1]
      else if f = ''aria20.json'' then Contenuto [g2]
      else Assente)"



definition g_valore_errato :: grezzo where
  "g_valore_errato = \<lparr> g_inquinante = ''O3'', g_stazione_id = Numero 1,
          g_data = Some ''2021-03-01'', g_valore = Testo ''n.d.'' \<rparr>"

definition stazioni_esempio :: "stazione list" where
  "stazioni_esempio = [\<lparr> s_stazione_id = 1, s_nome_stazione = ''Verziere'' \<rparr>,
                       \<lparr> s_stazione_id = 7, s_nome_stazione = ''Senato'' \<rparr>]"

text \<open>A joined table: two stations, two pollutants, three years.\<close>

definition u1 :: unificato where
  "u1 = \<lparr> inquinante = ''PM10'', stazione_id = 1, data = Some (2020, 60),
          anno = Some 2020, valore = Some 30, nome_stazione = ''Verziere'' \<rparr>"

definition u2 :: unificato where
  "u2 = \<lparr> inquinante = ''PM10'', stazione_id = 1, data = Some (2021, 59),
          anno = Some 2021, valore = Some 20, nome_stazione = ''Verziere'' \<rparr>"

definition u3 :: unificato where
  "u3 = \<lparr> inquinante = ''PM10'', stazione_id = 7, data = Some (2020, 61),
          anno = Some 2020, valore = Some 50, nome_stazione = ''Senato'' \<rparr>"

definition u4 :: unificato where
  "u4 = \<lparr> inquinante = ''NO2'', stazione_id = 7, data = Some (2022, 12),
          anno = Some 2022, valore = Some 41, nome_stazione = ''Senato'' \<rparr>"

definition u5 :: unificato where
  "u5 = \<lparr> inquinante = ''NO2'', stazione_id = 7, data = Some (2022, 3),
          anno = Some 2022, valore = Some 39, nome_stazione = ''Senato'' \<rparr>"

definition tabella_esempio :: "unificato list" where
  "tabella_esempio = [u1, u2, u3, u4, u5]"

text \<open>A table whose first and last annual means are equal.\<close>

definition u6 :: unificato where
  "u6 = \<lparr> inquinante = ''PM10'', stazione_id = 1, data = Some (2021, 59),
          anno = Some 2021, valore = Some 30, nome_stazione = ''Verziere'' \<rparr>"

definition tabella_pari :: "unificato list" where
  "tabella_pari = [u1, u6]"

text \<open>Six stations with ozone rows, one of them with two rows.\<close>

definition riga_o3 :: "int \<Rightarrow> string \<Rightarrow> real \<Rightarrow> unificato" where
  "riga_o3 i n v = \<lparr> inquinante = ''O3'', stazione_id = i, data = Some (2024, 5),
          anno = Some 2024, valore = Some v, nome_stazione = n \<rparr>"

definition tabella_sei :: "unificato list" where
  "tabella_sei = [riga_o3 1 ''Verziere'' 10, riga_o3 2 ''Senato'' 60, riga_o3 3 ''Marche'' 30,
                  riga_o3 4 ''Pascal'' 20, riga_o3 5 ''Liguria'' 50, riga_o3 6 ''Abbiategrasso'' 40,
                  riga_o3 2 ''Senato'' 50]"


text \<open>Cleaned rows: two with a station, one without, one with a missing key.\<close>

definition p1 :: pulito where
  "p1 = \<lparr> p_inquinante = ''PM10'', p_stazione_id = Numero 1, p_data = Some (2020, 60),
          p_anno = Some 2020, p_valore = Some 30 \<rparr>"

definition p2 :: pulito where
  "p2 = \<lparr> p_inquinante = ''PM10'', p_stazione_id = Testo ''7'', p_data = Some (2021, 59),
          p_anno = Some 2021, p_valore = Some 12.5 \<rparr>"

definition p3 :: pulito where
  "p3 = \<lparr> p_inquinante = ''NO2'', p_stazione_id = Numero 2, p_data = Some (2021, 59),
          p_anno = Some 2021, p_valore = Some 20 \<rparr>"

definition p_senza_id :: pulito where
  "p_senza_id = \<lparr> p_inquinante = ''NO2'', p_stazione_id = Nullo, p_data = Some (2021, 59),
          p_anno = Some 2021, p_valore = Some 20 \<rparr>"

text \<open>A station table in which one id occurs twice.\<close>

definition stazioni_doppie :: "stazione list" where
  "stazioni_doppie = [\<lparr> s_stazione_id = 1, s_nome_stazione = ''Verziere'' \<rparr>,
                      \<lparr> s_stazione_id = 1, s_nome_stazione = ''Verziere bis'' \<rparr>]"

text \<open>The station file that gives \<open>stazioni_esempio\<close>.\<close>

definition geo_esempio :: "feature list esito_file" where
  "geo_esempio = Contenuto [\<lparr> id_amat = Numero 1, nome = ''Verziere'' \<rparr>,
                            \<lparr> id_amat = Testo ''7'', nome = ''Senato'' \<rparr>]"

text \<open>Only one yearly file exists, and the value of its one row does not coerce.\<close>

definition fs_scartato :: "string \<Rightarrow> grezzo list esito_file" where
  "fs_scartato f = (if f = ''aria15.json'' then Contenuto [g_valore_errato] else Assente)"

section \<open>Properties\<close>

lemmas u_defs = u1_def u2_def u3_def u4_def u5_def u6_def

subsection \<open>Loading\<close>

lemma carica_senza_corrotti:
  "\<forall>f\<in>set files. fs f \<noteq> Corrotto \<Longrightarrow>
   carica fs files (avvisi, lista_dati) =
     (avvisi @ map avviso_assente (filter (\<lambda>f. fs f = Assente) files),
      Inr (lista_dati @ disponibili fs files))"
proof (induction files arbitrary: avvisi lista_dati)
  case Nil
  show ?case by (simp add: disponibili_def)
next
  case (Cons f files)
  then show ?case
    by (cases "fs f") (simp_all add: disponibili_def)
qed

lemma disponibili_vuoto_iff:
  "disponibili fs files = [] \<longleftrightarrow> (\<forall>f\<in>set files. \<forall>c. fs f \<noteq> Contenuto c)"
  by (induction files)
     (auto simp: disponibili_def split: esito_file.splits)

lemma contenuto_in_disponibili:
  "f \<in> set files \<Longrightarrow> fs f = Contenuto c \<Longrightarrow> c \<in> set (disponibili fs files)"
  by (induction files)
     (auto simp: disponibili_def split: esito_file.splits)

text \<open>
  C1. The claim: when every yearly file is missing, \<^verbatim>\<open>prepara_dati\<close> returns an empty
  table and does not raise. The code at that input: each of the nine files gives its
  warning, \<^verbatim>\<open>lista_dati\<close> stays empty, and \<^verbatim>\<open>pd.concat\<close> raises on the empty list, so
  no table is returned, whatever the station file holds.
\<close>

theorem prepara_dati_tutti_assenti:
  "prepara_dati az (\<lambda>_. Assente) geo =
     (map avviso_assente file_json_annuali, Inl NessunOggettoDaConcatenare)"
  by (simp add: prepara_dati_def file_json_annuali_def dopo_caricamento_def pd_concat_def)

subsection \<open>Cleaning\<close>

lemma az_esempio_sel:
  "numero_di_testo az_esempio s = (if s = ''12.5'' then Some 12.5 else None)"
  "istante_di_testo az_esempio s =
     (if s = ''2020-03-01'' then Some (2020, 60)
      else if s = ''2021-03-01'' then Some (2021, 59) else None)"
  "intero_di_testo az_esempio s = (if s = ''7'' then Some 7 else None)"
  by (simp_all add: az_esempio_def)

lemma per_riga_Inr_map:
  "per_riga f xs = Inr ys \<Longrightarrow> map f xs = map Inr ys"
  by (induction xs arbitrary: ys) (auto split: sum.splits)

lemma per_riga_Inr_set:
  "per_riga f xs = Inr ys \<Longrightarrow> y \<in> set ys \<Longrightarrow> \<exists>x\<in>set xs. f x = Inr y"
  by (induction xs arbitrary: ys) (auto split: sum.splits)


lemma per_riga_totale:
  "\<forall>x\<in>set xs. \<exists>y. f x = Inr y \<Longrightarrow> \<exists>ys. per_riga f xs = Inr ys"
  by (induction xs) (auto split: sum.splits)









lemma pulisci_riga_Inr_eq:
  assumes "pulisci_riga az g = Inr r"
  shows "r = riga_pulita az g"
proof (cases "g_data g")
  case None
  then show ?thesis using assms by (auto simp: pulisci_riga_def riga_pulita_def)
next
  case (Some s)
  then show ?thesis using assms
    by (cases "istante_di_testo az s") (auto simp: pulisci_riga_def riga_pulita_def)
qed

lemma per_riga_map:
  assumes "\<And>x y. f x = Inr y \<Longrightarrow> y = F x"
  shows "per_riga f xs = Inr ys \<Longrightarrow> ys = map F xs"
proof (induction xs arbitrary: ys)
  case Nil
  then show ?case by simp
next
  case (Cons x xs)
  then show ?case by (auto split: sum.splits dest: assms)
qed

lemma dropna_riga_pulita:
  "dropna_valore (map (riga_pulita az) df)
     = map (riga_pulita az) (filter (\<lambda>g. to_numeric az (g_valore g) \<noteq> None) df)"
  by (simp add: dropna_valore_def filter_map comp_def riga_pulita_def)

lemma riga_pulita_anno:
  "p_anno (riga_pulita az g) = map_option anno_di (p_data (riga_pulita az g))"
  by (cases "g_data g") (simp_all add: riga_pulita_def)

lemma pulizia_Inr:
  assumes "pulizia az df = Inr out"
  shows "out = map (riga_pulita az) (filter (\<lambda>g. to_numeric az (g_valore g) \<noteq> None) df)"
proof -
  from assms obtain df' where df': "per_riga (pulisci_riga az) df = Inr df'"
      "out = dropna_valore df'"
    by (auto simp: pulizia_def split: if_splits sum.splits)
  have "df' = map (riga_pulita az) df"
    using per_riga_map [of "pulisci_riga az" "riga_pulita az" df df'] pulisci_riga_Inr_eq df'(1)
    by blast
  with df'(2) show ?thesis by (simp only: dropna_riga_pulita)
qed






subsection \<open>Join\<close>

lemma filter_chiave_distinta:
  "distinct (map f xs) \<Longrightarrow>
     length (filter (\<lambda>x. f x = k) xs) = (if k \<in> f ` set xs then 1 else 0)"
proof (induction xs)
  case Nil
  show ?case by simp
next
  case (Cons x xs)
  then show ?case by (auto simp: image_iff)
qed

lemma merge_righe_elem:
  "u \<in> set (merge_righe df df_stazioni) \<longleftrightarrow>
     (\<exists>m\<in>set df. \<exists>s\<in>set df_stazioni. s_stazione_id s = m_stazione_id m \<and> u = unisci m s)"
  by (auto simp: merge_righe_def)

lemma per_riga_Inr_set2:
  "per_riga f xs = Inr ys \<Longrightarrow> x \<in> set xs \<Longrightarrow> \<exists>y\<in>set ys. f x = Inr y"
  by (induction xs arbitrary: ys) (auto split: sum.splits)

lemma per_riga_length:
  "per_riga f xs = Inr ys \<Longrightarrow> length ys = length xs"
  by (induction xs arbitrary: ys) (auto split: sum.splits)

lemma astype_int_Inr:
  "astype_int az ogg p = Inr m \<longleftrightarrow>
     astype_cella az ogg (p_stazione_id p) = Inr (m_stazione_id m)
     \<and> m_inquinante m = p_inquinante p \<and> m_data m = p_data p
     \<and> m_anno m = p_anno p \<and> m_valore m = p_valore p"
  by (cases "astype_cella az ogg (p_stazione_id p)") (auto simp: astype_int_def)

lemma astype_int_totale:
  "astype_cella az ogg (p_stazione_id p) = Inr i \<Longrightarrow> \<exists>m. astype_int az ogg p = Inr m"
  by (simp add: astype_int_def)

lemma riga_unita_unisci:
  "astype_int az ogg p = Inr m \<Longrightarrow> s_stazione_id s = m_stazione_id m \<Longrightarrow>
     riga_unita az ogg p s (unisci m s)"
  by (simp add: astype_int_Inr riga_unita_def unisci_def)

lemma filter_chiave_cast:
  assumes "astype_cella az ogg c = Inr i"
  shows "filter (\<lambda>s. astype_cella az ogg c = Inr (s_stazione_id s)) st
       = filter (\<lambda>s. s_stazione_id s = i) st"
  using assms by (auto intro: filter_cong)

lemma length_merge_righe_cast:
  "per_riga (astype_int az ogg) df = Inr df2 \<Longrightarrow>
     length (merge_righe df2 st) =
       sum_list (map (\<lambda>p. length (filter
          (\<lambda>s. astype_cella az ogg (p_stazione_id p) = Inr (s_stazione_id s)) st)) df)"
proof (induction df arbitrary: df2)
  case Nil
  then show ?case by (simp add: merge_righe_def)
next
  case (Cons p df)
  from Cons.prems obtain m df2' where m: "astype_int az ogg p = Inr m"
    and r: "per_riga (astype_int az ogg) df = Inr df2'" and d: "df2 = m # df2'"
    by (auto split: sum.splits)
  from m have c: "astype_cella az ogg (p_stazione_id p) = Inr (m_stazione_id m)"
    by (simp add: astype_int_Inr)
  have "length (merge_righe df2 st) =
      length (filter (\<lambda>s. s_stazione_id s = m_stazione_id m) st)
        + length (merge_righe df2' st)"
    by (simp add: d merge_righe_def)
  then show ?case
    using Cons.IH [OF r] filter_chiave_cast [OF c, of st] by simp
qed

lemma somma_indicatrice:
  "sum_list (map (\<lambda>x. if P x then 1 else 0) xs) = length (filter P xs)"
  by (induction xs) auto

lemma merge_cast_sound:
  assumes "per_riga (astype_int az ogg) df = Inr df2" and "u \<in> set (merge_righe df2 st)"
  shows "\<exists>p\<in>set df. \<exists>s\<in>set st. riga_unita az ogg p s u"
proof -
  from assms(2) obtain m s where m: "m \<in> set df2" and s: "s \<in> set st"
    and k: "s_stazione_id s = m_stazione_id m" and u: "u = unisci m s"
    by (auto simp: merge_righe_elem)
  from per_riga_Inr_set [OF assms(1) m] obtain p where p: "p \<in> set df"
    and c: "astype_int az ogg p = Inr m" by blast
  from riga_unita_unisci [OF c k] have "riga_unita az ogg p s u" by (simp add: u)
  with p s show ?thesis by blast
qed

lemma merge_cast_complete:
  assumes "per_riga (astype_int az ogg) df = Inr df2" and "p \<in> set df" and "s \<in> set st"
    and "astype_cella az ogg (p_stazione_id p) = Inr (s_stazione_id s)"
  shows "\<exists>u\<in>set (merge_righe df2 st). riga_unita az ogg p s u"
proof -
  from per_riga_Inr_set2 [OF assms(1,2)] obtain m where m: "m \<in> set df2"
    and c: "astype_int az ogg p = Inr m" by blast
  from c assms(4) have k: "s_stazione_id s = m_stazione_id m" by (simp add: astype_int_Inr)
  have "unisci m s \<in> set (merge_righe df2 st)"
    using m assms(3) k by (auto simp: merge_righe_elem)
  with riga_unita_unisci [OF c k] show ?thesis by blast
qed

lemma unione_Inr:
  assumes "unione az ogg df st = Inr t"
  shows "\<exists>df2. per_riga (astype_int az ogg) df = Inr df2 \<and> st \<noteq> []
           \<and> t = merge_righe df2 st"
  using assms by (auto simp: unione_def pd_merge_def split: sum.splits if_splits)

text \<open>
  C3, as the code has it. Lines 87 and 88 cast the key column and merge. When every key
  casts and the station table has a row, the result is a table, with no error, and an
  inner join on \<^verbatim>\<open>stazione_id\<close>: every row of it is a measurement with the name of a
  station row of the same id; every pair of a measurement and a station row of the same
  id gives such a row; a measurement whose id is in no station row leaves no row. The
  row count is the sum, over the measurements, of the number of station rows with their
  id. When the station ids are unique, the rows of the result and the measurements
  without a station add up to the measurements, so the count does not grow.
\<close>

theorem unione_interna:
  assumes "\<forall>p\<in>set df. \<exists>i. astype_cella az ogg (p_stazione_id p) = Inr i"
    and "df_stazioni \<noteq> []"
  shows "\<exists>t. unione az ogg df df_stazioni = Inr t
    \<and> (\<forall>u\<in>set t. \<exists>p\<in>set df. \<exists>s\<in>set df_stazioni.
          astype_cella az ogg (p_stazione_id p) = Inr (stazione_id u)
          \<and> s_stazione_id s = stazione_id u
          \<and> nome_stazione u = s_nome_stazione s
          \<and> inquinante u = p_inquinante p \<and> data u = p_data p
          \<and> anno u = p_anno p \<and> valore u = p_valore p)
    \<and> (\<forall>p\<in>set df. \<forall>s\<in>set df_stazioni.
          astype_cella az ogg (p_stazione_id p) = Inr (s_stazione_id s) \<longrightarrow>
          (\<exists>u\<in>set t. stazione_id u = s_stazione_id s
             \<and> nome_stazione u = s_nome_stazione s
             \<and> inquinante u = p_inquinante p \<and> data u = p_data p
             \<and> anno u = p_anno p \<and> valore u = p_valore p))
    \<and> (\<forall>p\<in>set df. \<forall>i. astype_cella az ogg (p_stazione_id p) = Inr i
            \<and> i \<notin> s_stazione_id ` set df_stazioni \<longrightarrow>
          (\<forall>u\<in>set t. stazione_id u \<noteq> i))
    \<and> length t = sum_list (map (\<lambda>p. length (filter
          (\<lambda>s. astype_cella az ogg (p_stazione_id p) = Inr (s_stazione_id s)) df_stazioni)) df)
    \<and> (distinct (map s_stazione_id df_stazioni) \<longrightarrow>
          length t + length (filter (\<lambda>p. \<not> (\<exists>s\<in>set df_stazioni.
              astype_cella az ogg (p_stazione_id p) = Inr (s_stazione_id s))) df) = length df
          \<and> length t \<le> length df)"
proof -
  have "\<forall>p\<in>set df. \<exists>m. astype_int az ogg p = Inr m"
    using assms(1) astype_int_totale [of az ogg] by blast
  then obtain df2 where df2: "per_riga (astype_int az ogg) df = Inr df2"
    using per_riga_totale [of df "astype_int az ogg"] by blast
  let ?t = "merge_righe df2 df_stazioni"
  have a: "unione az ogg df df_stazioni = Inr ?t"
    using df2 assms(2) by (simp add: unione_def pd_merge_def)
  have b: "\<forall>u\<in>set ?t. \<exists>p\<in>set df. \<exists>s\<in>set df_stazioni.
          astype_cella az ogg (p_stazione_id p) = Inr (stazione_id u)
          \<and> s_stazione_id s = stazione_id u
          \<and> nome_stazione u = s_nome_stazione s
          \<and> inquinante u = p_inquinante p \<and> data u = p_data p
          \<and> anno u = p_anno p \<and> valore u = p_valore p"
  proof
    fix u assume "u \<in> set ?t"
    from merge_cast_sound [OF df2 this]
    show "\<exists>p\<in>set df. \<exists>s\<in>set df_stazioni.
          astype_cella az ogg (p_stazione_id p) = Inr (stazione_id u)
          \<and> s_stazione_id s = stazione_id u
          \<and> nome_stazione u = s_nome_stazione s
          \<and> inquinante u = p_inquinante p \<and> data u = p_data p
          \<and> anno u = p_anno p \<and> valore u = p_valore p"
      unfolding riga_unita_def by blast
  qed
  have c: "\<forall>p\<in>set df. \<forall>s\<in>set df_stazioni.
          astype_cella az ogg (p_stazione_id p) = Inr (s_stazione_id s) \<longrightarrow>
          (\<exists>u\<in>set ?t. stazione_id u = s_stazione_id s
             \<and> nome_stazione u = s_nome_stazione s
             \<and> inquinante u = p_inquinante p \<and> data u = p_data p
             \<and> anno u = p_anno p \<and> valore u = p_valore p)"
  proof (intro ballI impI)
    fix p s assume p: "p \<in> set df" and s: "s \<in> set df_stazioni"
      and k: "astype_cella az ogg (p_stazione_id p) = Inr (s_stazione_id s)"
    from merge_cast_complete [OF df2 p s k] obtain u where "u \<in> set ?t"
      and "riga_unita az ogg p s u" by blast
    then show "\<exists>u\<in>set ?t. stazione_id u = s_stazione_id s
             \<and> nome_stazione u = s_nome_stazione s
             \<and> inquinante u = p_inquinante p \<and> data u = p_data p
             \<and> anno u = p_anno p \<and> valore u = p_valore p"
      unfolding riga_unita_def by metis
  qed
  have d: "\<forall>p\<in>set df. \<forall>i. astype_cella az ogg (p_stazione_id p) = Inr i
            \<and> i \<notin> s_stazione_id ` set df_stazioni \<longrightarrow>
          (\<forall>u\<in>set ?t. stazione_id u \<noteq> i)"
  proof (intro ballI allI impI)
    fix p i u assume "astype_cella az ogg (p_stazione_id p) = Inr i
            \<and> i \<notin> s_stazione_id ` set df_stazioni" and "u \<in> set ?t"
    then obtain s where "s \<in> set df_stazioni" "s_stazione_id s = stazione_id u"
      and "i \<notin> s_stazione_id ` set df_stazioni"
      using b by blast
    then show "stazione_id u \<noteq> i" by (metis imageI)
  qed
  have e: "length ?t = sum_list (map (\<lambda>p. length (filter
          (\<lambda>s. astype_cella az ogg (p_stazione_id p) = Inr (s_stazione_id s)) df_stazioni)) df)"
    by (rule length_merge_righe_cast [OF df2])
  have f: "length ?t + length (filter (\<lambda>p. \<not> (\<exists>s\<in>set df_stazioni.
              astype_cella az ogg (p_stazione_id p) = Inr (s_stazione_id s))) df) = length df
          \<and> length ?t \<le> length df"
    if dis: "distinct (map s_stazione_id df_stazioni)"
  proof -
    let ?P = "\<lambda>p. \<exists>s\<in>set df_stazioni.
              astype_cella az ogg (p_stazione_id p) = Inr (s_stazione_id s)"
    have "length (filter (\<lambda>s. astype_cella az ogg (p_stazione_id p) = Inr (s_stazione_id s))
              df_stazioni) = (if ?P p then 1 else 0)" if p: "p \<in> set df" for p
    proof -
      from assms(1) p obtain i where i: "astype_cella az ogg (p_stazione_id p) = Inr i"
        by blast
      have "?P p \<longleftrightarrow> i \<in> s_stazione_id ` set df_stazioni"
        using i by auto
      then show ?thesis
        using filter_chiave_cast [OF i, of df_stazioni]
          filter_chiave_distinta [OF dis, of i] by simp
    qed
    then have "map (\<lambda>p. length (filter
          (\<lambda>s. astype_cella az ogg (p_stazione_id p) = Inr (s_stazione_id s)) df_stazioni)) df
        = map (\<lambda>p. if ?P p then 1 else 0) df"
      by simp
    then have "length ?t = length (filter ?P df)"
      using e by (simp only: somma_indicatrice)
    then have "length ?t + length (filter (\<lambda>p. \<not> ?P p) df) = length df"
      using sum_length_filter_compl [of ?P df] by simp
    then show ?thesis by simp
  qed
  from a b c d e f show ?thesis by blast
qed


theorem unione_interna_witness:
  "list_all (\<lambda>p. \<exists>i. astype_cella az_esempio True (p_stazione_id p) = Inr i) [p1, p2, p3]
   \<and> stazioni_esempio \<noteq> []
   \<and> distinct (map s_stazione_id stazioni_esempio)
   \<and> (\<exists>t. unione az_esempio True [p1, p2, p3] stazioni_esempio = Inr t
          \<and> length t = 2 \<and> length t \<le> length [p1, p2, p3]
          \<and> list_all (\<lambda>u. stazione_id u \<noteq> 2) t)
   \<and> unione az_esempio True [p1, p2, p3] stazioni_esempio =
       Inr [\<lparr> inquinante = ''PM10'', stazione_id = 1, data = Some (2020, 60),
               anno = Some 2020, valore = Some 30, nome_stazione = ''Verziere'' \<rparr>,
            \<lparr> inquinante = ''PM10'', stazione_id = 7, data = Some (2021, 59),
               anno = Some 2021, valore = Some 12.5, nome_stazione = ''Senato'' \<rparr>]"
proof -
  let ?df = "[p1, p2, p3]"
  have c1: "astype_cella az_esempio True (p_stazione_id p1) = Inr 1"
    by (simp add: p1_def in_int64_def troncamento_def)
  have c2: "astype_cella az_esempio True (p_stazione_id p2) = Inr 7"
    by (simp add: p2_def in_int64_def az_esempio_sel)
  have c3: "astype_cella az_esempio True (p_stazione_id p3) = Inr 2"
    by (simp add: p3_def in_int64_def troncamento_def)
  have h1: "\<forall>p\<in>set ?df. \<exists>i. astype_cella az_esempio True (p_stazione_id p) = Inr i"
    using c1 c2 c3 by simp
  have l1: "list_all (\<lambda>p. \<exists>i. astype_cella az_esempio True (p_stazione_id p) = Inr i) ?df"
    unfolding list_all_iff by (rule h1)
  have h2: "stazioni_esempio \<noteq> []" by (simp add: stazioni_esempio_def)
  have h3: "distinct (map s_stazione_id stazioni_esempio)"
    by (simp add: stazioni_esempio_def)
  have n: "length (filter (\<lambda>p. \<not> (\<exists>s\<in>set stazioni_esempio.
              astype_cella az_esempio True (p_stazione_id p) = Inr (s_stazione_id s))) ?df) = 1"
    by (simp add: c1 c2 c3 stazioni_esempio_def)
  have f: "2 \<notin> s_stazione_id ` set stazioni_esempio"
    by (simp add: stazioni_esempio_def)
  from unione_interna [OF h1 h2] obtain t
    where t: "unione az_esempio True ?df stazioni_esempio = Inr t"
      and ex: "\<forall>p\<in>set ?df. \<forall>i. astype_cella az_esempio True (p_stazione_id p) = Inr i
            \<and> i \<notin> s_stazione_id ` set stazioni_esempio \<longrightarrow>
          (\<forall>u\<in>set t. stazione_id u \<noteq> i)"
      and cnt: "distinct (map s_stazione_id stazioni_esempio) \<longrightarrow>
          length t + length (filter (\<lambda>p. \<not> (\<exists>s\<in>set stazioni_esempio.
              astype_cella az_esempio True (p_stazione_id p) = Inr (s_stazione_id s))) ?df)
            = length ?df
          \<and> length t \<le> length ?df"
    by blast
  from cnt h3 n have len: "length t = 2" "length t \<le> length ?df" by simp_all
  from ex c3 f have "\<forall>u\<in>set t. stazione_id u \<noteq> 2" by simp
  then have "list_all (\<lambda>u. stazione_id u \<noteq> 2) t" by (simp add: list_all_iff)
  with t len have a: "\<exists>t. unione az_esempio True ?df stazioni_esempio = Inr t
          \<and> length t = 2 \<and> length t \<le> length ?df
          \<and> list_all (\<lambda>u. stazione_id u \<noteq> 2) t"
    by blast
  have b: "unione az_esempio True ?df stazioni_esempio =
       Inr [\<lparr> inquinante = ''PM10'', stazione_id = 1, data = Some (2020, 60),
               anno = Some 2020, valore = Some 30, nome_stazione = ''Verziere'' \<rparr>,
            \<lparr> inquinante = ''PM10'', stazione_id = 7, data = Some (2021, 59),
               anno = Some 2021, valore = Some 12.5, nome_stazione = ''Senato'' \<rparr>]"
    by (simp add: unione_def astype_int_def c1 c2 c3 pd_merge_def merge_righe_def unisci_def
        stazioni_esempio_def)
      (simp add: p1_def p2_def)
  from l1 h2 h3 a b show ?thesis by blast
qed

text \<open>
  The claim C3 at concrete inputs: with an id that occurs twice in the station table one
  measurement gives two rows; with a station table without rows the merge raises instead
  of dropping the measurement; with a missing key the cast of line 87 raises.
\<close>

theorem unione_interna_counterexample:
  "unione az_esempio False [p1] stazioni_doppie =
       Inr [\<lparr> inquinante = ''PM10'', stazione_id = 1, data = Some (2020, 60),
               anno = Some 2020, valore = Some 30, nome_stazione = ''Verziere'' \<rparr>,
            \<lparr> inquinante = ''PM10'', stazione_id = 1, data = Some (2020, 60),
               anno = Some 2020, valore = Some 30, nome_stazione = ''Verziere bis'' \<rparr>]
   \<and> length [p1] = 1
   \<and> unione az_esempio False [p3] [] = Inl (KeyError ''stazione_id'')
   \<and> unione az_esempio False [p_senza_id] stazioni_esempio = Inl (ConversioneIntera Nullo)"
  by (simp add: unione_def astype_int_def pd_merge_def merge_righe_def unisci_def
      stazioni_doppie_def stazioni_esempio_def p1_def p3_def p_senza_id_def
      in_int64_def troncamento_def)

subsection \<open>From the files to the table\<close>

lemma riga_unita_pulita:
  assumes "riga_unita az ogg (riga_pulita az g) s u"
    and "to_numeric az (g_valore g) \<noteq> None"
  shows "riga_da_sorgente az ogg g s u"
proof -
  have "anno u = map_option anno_di (data u)"
    using assms(1) riga_pulita_anno [of az g] by (simp add: riga_unita_def)
  moreover have "valore u = to_numeric az (g_valore g)"
    and "data u = (case g_data g of None \<Rightarrow> None | Some d \<Rightarrow> istante_di_testo az d)"
    and "inquinante u = g_inquinante g"
    and "astype_cella az ogg (g_stazione_id g) = Inr (stazione_id u)"
    and "s_stazione_id s = stazione_id u" and "nome_stazione u = s_nome_stazione s"
    using assms(1) by (simp_all add: riga_unita_def riga_pulita_def)
  ultimately show ?thesis using assms(2) by (simp add: riga_da_sorgente_def)
qed

lemma dopo_caricamento_Inr:
  assumes "dopo_caricamento az geo lista = Inr t"
  shows "\<exists>df1 st. pulizia az (concat lista) = Inr df1
           \<and> carica_stazioni az geo = Inr st
           \<and> unione az (colonna_oggetto (concat lista)) df1 st = Inr t"
  using assms
  by (auto simp: dopo_caricamento_def pd_concat_def split: sum.splits if_splits)

lemma dopo_caricamento_righe:
  assumes "dopo_caricamento az geo lista = Inr t"
  shows "\<exists>st. carica_stazioni az geo = Inr st
     \<and> (\<forall>u\<in>set t. \<exists>g\<in>set (concat lista). \<exists>s\<in>set st.
           riga_da_sorgente az (colonna_oggetto (concat lista)) g s u)
     \<and> (\<forall>g\<in>set (concat lista). \<forall>s\<in>set st.
           to_numeric az (g_valore g) \<noteq> None
           \<and> astype_cella az (colonna_oggetto (concat lista)) (g_stazione_id g)
                = Inr (s_stazione_id s) \<longrightarrow>
           (\<exists>u\<in>set t. riga_da_sorgente az (colonna_oggetto (concat lista)) g s u))"
proof -
  let ?df = "concat lista"
  let ?ogg = "colonna_oggetto ?df"
  from dopo_caricamento_Inr [OF assms] obtain df1 st where
    p: "pulizia az ?df = Inr df1" and c: "carica_stazioni az geo = Inr st"
    and un: "unione az ?ogg df1 st = Inr t" by blast
  from pulizia_Inr [OF p]
  have df1: "df1 = map (riga_pulita az) (filter (\<lambda>g. to_numeric az (g_valore g) \<noteq> None) ?df)" .
  from unione_Inr [OF un] obtain df2 where df2: "per_riga (astype_int az ?ogg) df1 = Inr df2"
    and t: "t = merge_righe df2 st" by blast
  have a: "\<forall>u\<in>set t. \<exists>g\<in>set ?df. \<exists>s\<in>set st. riga_da_sorgente az ?ogg g s u"
  proof
    fix u assume "u \<in> set t"
    then have "u \<in> set (merge_righe df2 st)" by (simp add: t)
    from merge_cast_sound [OF df2 this] obtain pr s where pr: "pr \<in> set df1"
      and s: "s \<in> set st" and r: "riga_unita az ?ogg pr s u" by blast
    from pr obtain g where g: "g \<in> set ?df" "to_numeric az (g_valore g) \<noteq> None"
      and e: "pr = riga_pulita az g" unfolding df1 by auto
    from r e have "riga_unita az ?ogg (riga_pulita az g) s u" by simp
    from riga_unita_pulita [OF this g(2)] g(1) s
    show "\<exists>g\<in>set ?df. \<exists>s\<in>set st. riga_da_sorgente az ?ogg g s u" by blast
  qed
  have b: "\<forall>g\<in>set ?df. \<forall>s\<in>set st.
           to_numeric az (g_valore g) \<noteq> None
           \<and> astype_cella az ?ogg (g_stazione_id g) = Inr (s_stazione_id s) \<longrightarrow>
           (\<exists>u\<in>set t. riga_da_sorgente az ?ogg g s u)"
  proof (intro ballI impI)
    fix g s assume g: "g \<in> set ?df" and s: "s \<in> set st"
      and h: "to_numeric az (g_valore g) \<noteq> None
           \<and> astype_cella az ?ogg (g_stazione_id g) = Inr (s_stazione_id s)"
    have pr: "riga_pulita az g \<in> set df1" using g h unfolding df1 by simp
    have k: "astype_cella az ?ogg (p_stazione_id (riga_pulita az g)) = Inr (s_stazione_id s)"
      using h by (simp add: riga_pulita_def)
    from merge_cast_complete [OF df2 pr s k] obtain u where u: "u \<in> set t"
      and r: "riga_unita az ?ogg (riga_pulita az g) s u" by (auto simp: t)
    from riga_unita_pulita [OF r] h u
    show "\<exists>u\<in>set t. riga_da_sorgente az ?ogg g s u" by blast
  qed
  from c a b show ?thesis by blast
qed

text \<open>
  C9, as the code has it. When no listed file is unreadable and at least one exists, the
  loading loop does not raise: it shows, in list order, the warning
  \<^verbatim>\<open>Attenzione: <file> non trovato!\<close> for each missing file; \<^verbatim>\<open>lista_dati\<close> holds the
  frames of the files that exist, in list order; \<^verbatim>\<open>pd.concat\<close> succeeds and its result
  contains every row of every file that exists. \<^verbatim>\<open>prepara_dati\<close> shows these warnings
  and goes on with the concatenated rows. When it returns a table, every row of the
  table is a row of a file that exists, joined with a station, and the table has such a
  row for every row of a file that exists whose value coerces and whose key casts to the
  id of a station: the rows that the cleaning or the join drop are not in the table.
\<close>

theorem caricamento_parziale:
  assumes "\<forall>f\<in>set files. fs f \<noteq> Corrotto"
    and "\<exists>f\<in>set files. \<exists>c. fs f = Contenuto c"
  shows "carica fs files ([], []) =
           (map (\<lambda>f. ''Attenzione: '' @ f @ '' non trovato!'')
                (filter (\<lambda>f. fs f = Assente) files),
            Inr (disponibili fs files))
    \<and> pd_concat (disponibili fs files) = Inr (concat (disponibili fs files))
    \<and> (\<forall>f\<in>set files. \<forall>c. fs f = Contenuto c \<longrightarrow>
          set c \<subseteq> set (concat (disponibili fs files)))
    \<and> (files = file_json_annuali \<longrightarrow>
          prepara_dati az fs geo =
            (map (\<lambda>f. ''Attenzione: '' @ f @ '' non trovato!'')
                 (filter (\<lambda>f. fs f = Assente) files),
             dopo_caricamento az geo (disponibili fs files)))
    \<and> (\<forall>t. dopo_caricamento az geo (disponibili fs files) = Inr t \<longrightarrow>
          (\<exists>df_stazioni. carica_stazioni az geo = Inr df_stazioni
             \<and> (\<forall>u\<in>set t. \<exists>g\<in>set (concat (disponibili fs files)). \<exists>s\<in>set df_stazioni.
                   riga_da_sorgente az
                     (colonna_oggetto (concat (disponibili fs files))) g s u)
             \<and> (\<forall>g\<in>set (concat (disponibili fs files)). \<forall>s\<in>set df_stazioni.
                   to_numeric az (g_valore g) \<noteq> None
                   \<and> astype_cella az (colonna_oggetto (concat (disponibili fs files)))
                        (g_stazione_id g) = Inr (s_stazione_id s) \<longrightarrow>
                   (\<exists>u\<in>set t. riga_da_sorgente az
                     (colonna_oggetto (concat (disponibili fs files))) g s u))))"
proof -
  let ?avvisi = "map (\<lambda>f. ''Attenzione: '' @ f @ '' non trovato!'')
                (filter (\<lambda>f. fs f = Assente) files)"
  have av: "map avviso_assente (filter (\<lambda>f. fs f = Assente) files) = ?avvisi"
    by (simp add: avviso_assente_def)
  have a: "carica fs files ([], []) = (?avvisi, Inr (disponibili fs files))"
    using carica_senza_corrotti [OF assms(1), of "[]" "[]"] av by simp
  have "disponibili fs files \<noteq> []"
    using assms(2) by (simp add: disponibili_vuoto_iff)
  then have b: "pd_concat (disponibili fs files) = Inr (concat (disponibili fs files))"
    by (simp add: pd_concat_def)
  have c: "\<forall>f\<in>set files. \<forall>c. fs f = Contenuto c \<longrightarrow>
             set c \<subseteq> set (concat (disponibili fs files))"
    using contenuto_in_disponibili [of _ files fs] by auto
  have d: "files = file_json_annuali \<longrightarrow>
          prepara_dati az fs geo = (?avvisi, dopo_caricamento az geo (disponibili fs files))"
    using a by (auto simp: prepara_dati_def)
  have e: "\<forall>t. dopo_caricamento az geo (disponibili fs files) = Inr t \<longrightarrow>
          (\<exists>df_stazioni. carica_stazioni az geo = Inr df_stazioni
             \<and> (\<forall>u\<in>set t. \<exists>g\<in>set (concat (disponibili fs files)). \<exists>s\<in>set df_stazioni.
                   riga_da_sorgente az
                     (colonna_oggetto (concat (disponibili fs files))) g s u)
             \<and> (\<forall>g\<in>set (concat (disponibili fs files)). \<forall>s\<in>set df_stazioni.
                   to_numeric az (g_valore g) \<noteq> None
                   \<and> astype_cella az (colonna_oggetto (concat (disponibili fs files)))
                        (g_stazione_id g) = Inr (s_stazione_id s) \<longrightarrow>
                   (\<exists>u\<in>set t. riga_da_sorgente az
                     (colonna_oggetto (concat (disponibili fs files))) g s u)))"
    using dopo_caricamento_righe [of az geo "disponibili fs files"] by blast
  from a b c d e show ?thesis by blast
qed


lemma stazioni_geo_esempio:
  "carica_stazioni az_esempio geo_esempio = Inr stazioni_esempio"
  by (simp add: carica_stazioni_def geo_esempio_def stazione_di_feature_def
      stazioni_esempio_def az_esempio_sel troncamento_def)

theorem caricamento_parziale_witness:
  "list_all (\<lambda>f. fs_esempio f \<noteq> Corrotto) file_json_annuali
   \<and> (\<exists>f\<in>set file_json_annuali. \<exists>c. fs_esempio f = Contenuto c)
   \<and> (\<exists>f\<in>set file_json_annuali. fs_esempio f = Assente)
   \<and> pd_concat (disponibili fs_esempio file_json_annuali) = Inr [g1, g2]
   \<and> prepara_dati az_esempio fs_esempio geo_esempio =
       ([''Attenzione: aria16.json non trovato!'', ''Attenzione: aria17.json non trovato!'',
         ''Attenzione: aria18.json non trovato!'', ''Attenzione: aria19.json non trovato!'',
         ''Attenzione: aria23.json non trovato!'', ''Attenzione: aria24.json non trovato!'',
         ''Attenzione: aria25.json non trovato!''],
        Inr [\<lparr> inquinante = ''PM10'', stazione_id = 1, data = Some (2020, 60),
                anno = Some 2020, valore = Some 30, nome_stazione = ''Verziere'' \<rparr>,
             \<lparr> inquinante = ''PM10'', stazione_id = 7, data = Some (2021, 59),
                anno = Some 2021, valore = Some 12.5, nome_stazione = ''Senato'' \<rparr>])"
proof -
  have h1: "\<forall>f\<in>set file_json_annuali. fs_esempio f \<noteq> Corrotto"
    by (simp add: fs_esempio_def)
  have l1: "list_all (\<lambda>f. fs_esempio f \<noteq> Corrotto) file_json_annuali"
    unfolding list_all_iff by (rule h1)
  have h2: "\<exists>f\<in>set file_json_annuali. \<exists>c. fs_esempio f = Contenuto c"
    by (simp add: fs_esempio_def file_json_annuali_def)
  have h3: "\<exists>f\<in>set file_json_annuali. fs_esempio f = Assente"
    by (simp add: fs_esempio_def file_json_annuali_def)
  have d: "disponibili fs_esempio file_json_annuali = [[g1], [g2]]"
    by (simp add: disponibili_def fs_esempio_def file_json_annuali_def)
  have m: "filter (\<lambda>f. fs_esempio f = Assente) file_json_annuali =
      [''aria16.json'', ''aria17.json'', ''aria18.json'', ''aria19.json'',
       ''aria23.json'', ''aria24.json'', ''aria25.json'']"
    by (simp add: fs_esempio_def file_json_annuali_def)
  have p: "pulizia az_esempio [g1, g2] = Inr [p1, p2]"
    by (simp add: pulizia_def pulisci_riga_def dropna_valore_def g1_def g2_def p1_def p2_def
        az_esempio_sel anno_di_def del: not_None_eq)
  have o: "colonna_oggetto [g1, g2]"
    by (simp add: colonna_oggetto_def g1_def g2_def)
  have u: "unione az_esempio True [p1, p2] stazioni_esempio =
        Inr [\<lparr> inquinante = ''PM10'', stazione_id = 1, data = Some (2020, 60),
                anno = Some 2020, valore = Some 30, nome_stazione = ''Verziere'' \<rparr>,
             \<lparr> inquinante = ''PM10'', stazione_id = 7, data = Some (2021, 59),
                anno = Some 2021, valore = Some 12.5, nome_stazione = ''Senato'' \<rparr>]"
    by (simp add: unione_def astype_int_def pd_merge_def merge_righe_def unisci_def
        stazioni_esempio_def p1_def p2_def in_int64_def troncamento_def az_esempio_sel)
  have e: "dopo_caricamento az_esempio geo_esempio [[g1], [g2]] =
        Inr [\<lparr> inquinante = ''PM10'', stazione_id = 1, data = Some (2020, 60),
                anno = Some 2020, valore = Some 30, nome_stazione = ''Verziere'' \<rparr>,
             \<lparr> inquinante = ''PM10'', stazione_id = 7, data = Some (2021, 59),
                anno = Some 2021, valore = Some 12.5, nome_stazione = ''Senato'' \<rparr>]"
    by (simp add: dopo_caricamento_def pd_concat_def p stazioni_geo_esempio o u)
  from caricamento_parziale [OF h1 h2, of az_esempio geo_esempio]
  have "pd_concat (disponibili fs_esempio file_json_annuali)
          = Inr (concat (disponibili fs_esempio file_json_annuali))"
    and "prepara_dati az_esempio fs_esempio geo_esempio =
            (map (\<lambda>f. ''Attenzione: '' @ f @ '' non trovato!'')
                 (filter (\<lambda>f. fs_esempio f = Assente) file_json_annuali),
             dopo_caricamento az_esempio geo_esempio (disponibili fs_esempio file_json_annuali))"
    by blast+
  then have "pd_concat (disponibili fs_esempio file_json_annuali) = Inr [g1, g2]"
    and "prepara_dati az_esempio fs_esempio geo_esempio =
       ([''Attenzione: aria16.json non trovato!'', ''Attenzione: aria17.json non trovato!'',
         ''Attenzione: aria18.json non trovato!'', ''Attenzione: aria19.json non trovato!'',
         ''Attenzione: aria23.json non trovato!'', ''Attenzione: aria24.json non trovato!'',
         ''Attenzione: aria25.json non trovato!''],
        Inr [\<lparr> inquinante = ''PM10'', stazione_id = 1, data = Some (2020, 60),
                anno = Some 2020, valore = Some 30, nome_stazione = ''Verziere'' \<rparr>,
             \<lparr> inquinante = ''PM10'', stazione_id = 7, data = Some (2021, 59),
                anno = Some 2021, valore = Some 12.5, nome_stazione = ''Senato'' \<rparr>])"
    by (simp_all add: d m e)
  with l1 h2 h3 show ?thesis by blast
qed

text \<open>
  The claim C9 at a concrete input: only \<^verbatim>\<open>aria15.json\<close> exists, and the value of its
  one row does not coerce; \<^verbatim>\<open>prepara_dati\<close> returns a table without rows, so the table
  has no row of the file that exists.
\<close>

theorem caricamento_parziale_counterexample:
  "fs_scartato ''aria15.json'' = Contenuto [g_valore_errato]
   \<and> prepara_dati az_esempio fs_scartato geo_esempio =
       ([''Attenzione: aria16.json non trovato!'', ''Attenzione: aria17.json non trovato!'',
         ''Attenzione: aria18.json non trovato!'', ''Attenzione: aria19.json non trovato!'',
         ''Attenzione: aria20.json non trovato!'',
         ''Attenzione: aria23.json non trovato!'', ''Attenzione: aria24.json non trovato!'',
         ''Attenzione: aria25.json non trovato!''],
        Inr [])"
proof -
  have p: "pulizia az_esempio [g_valore_errato] = Inr []"
    by (simp add: pulizia_def pulisci_riga_def dropna_valore_def g_valore_errato_def
        az_esempio_sel)
  have e: "dopo_caricamento az_esempio geo_esempio [[g_valore_errato]] = Inr []"
    by (simp add: dopo_caricamento_def pd_concat_def p stazioni_geo_esempio unione_def
        pd_merge_def merge_righe_def stazioni_esempio_def)
  show ?thesis
    by (simp add: prepara_dati_def file_json_annuali_def fs_scartato_def avviso_assente_def e)
qed

text \<open>
  What the later statements assume of the table is what \<^verbatim>\<open>prepara_dati\<close> returns:
  every row has a value, and its year is the year of its timestamp.
\<close>

lemma prepara_dati_invarianti:
  assumes "prepara_dati az fs geo = (avvisi, Inr tabella)" and "u \<in> set tabella"
  shows "valore u \<noteq> None \<and> anno u = map_option anno_di (data u)"
proof -
  from assms(1) obtain lista_dati where "dopo_caricamento az geo lista_dati = Inr tabella"
    by (auto simp: prepara_dati_def split: prod.splits sum.splits)
  from dopo_caricamento_righe [OF this] assms(2)
  obtain g s where "riga_da_sorgente az (colonna_oggetto (concat lista_dati)) g s u"
    by blast
  then show ?thesis unfolding riga_da_sorgente_def by blast
qed

subsection \<open>Annual means and trend\<close>

lemma media_presenti:
  assumes "vs \<noteq> []" and "\<forall>v\<in>set vs. v \<noteq> None"
  shows "media vs = Some (sum_list (map the vs) / real (length vs))"
proof -
  have "List.map_filter (\<lambda>v. v) vs = map the vs"
    using assms(2) by (induction vs) auto
  then show ?thesis using assms(1) by (simp add: media_def)
qed

lemma media_gruppo:
  assumes "\<forall>r\<in>set df. valore r \<noteq> None" and "filter P df \<noteq> []"
  shows "media (map valore (filter P df)) = Some (media_aritmetica (filter P df))"
proof -
  have "\<forall>v\<in>set (map valore (filter P df)). v \<noteq> None"
    using assms(1) by auto
  moreover have "map valore (filter P df) \<noteq> []"
    using assms(2) by simp
  ultimately show ?thesis
    by (simp add: media_presenti media_aritmetica_def comp_def)
qed

lemma groupby_mean_chiavi:
  "map fst (groupby_mean chiave df) = sort (remdups (List.map_filter chiave df))"
  by (simp add: groupby_mean_def comp_def)

lemma set_chiavi:
  "set (List.map_filter chiave df) = {k. \<exists>r\<in>set df. chiave r = Some k}"
  by (induction df) (auto split: option.splits)

lemma groupby_mean_elem:
  "(k, m) \<in> set (groupby_mean chiave df) \<longleftrightarrow>
     (\<exists>r\<in>set df. chiave r = Some k)
     \<and> m = media (map valore (filter (\<lambda>r. chiave r = Some k) df))"
  by (auto simp: groupby_mean_def set_chiavi)

lemma gruppo_non_vuoto:
  "r \<in> set df \<Longrightarrow> P r \<Longrightarrow> filter P df \<noteq> []"
  by (auto simp: filter_empty_conv)

lemma groupby_mean_presenti:
  assumes "\<forall>r\<in>set df. valore r \<noteq> None" and "(k, m) \<in> set (groupby_mean chiave df)"
  shows "filter (\<lambda>r. chiave r = Some k) df \<noteq> []
     \<and> m = Some (media_aritmetica (filter (\<lambda>r. chiave r = Some k) df))"
proof -
  from assms(2) obtain r where r: "r \<in> set df" "chiave r = Some k"
    and m: "m = media (map valore (filter (\<lambda>r. chiave r = Some k) df))"
    by (auto simp: groupby_mean_elem)
  have ne: "filter (\<lambda>r. chiave r = Some k) df \<noteq> []"
    using gruppo_non_vuoto [of r df "\<lambda>r. chiave r = Some k"] r by simp
  with m media_gruppo [OF assms(1) ne] show ?thesis by simp
qed

lemma filter_inquinante:
  "filter P (filter (\<lambda>r. inquinante r = inq) df)
     = filter (\<lambda>r. inquinante r = inq \<and> P r) df"
  by (simp add: conj_commute)

text \<open>
  C4. On a table without missing values (what \<^verbatim>\<open>prepara_dati\<close> returns), the annual
  means of a pollutant list the years in ascending order, each year once, the years
  being exactly those of the rows of that pollutant; the mean of a year is the
  arithmetic average of the values of exactly the rows of that pollutant and year.
\<close>

theorem media_annuale_corretta:
  assumes "\<forall>r\<in>set df. valore r \<noteq> None"
  shows "sorted (map fst (media_annuale df inq))
    \<and> distinct (map fst (media_annuale df inq))
    \<and> set (map fst (media_annuale df inq))
        = {y. \<exists>r\<in>set df. inquinante r = inq \<and> anno r = Some y}
    \<and> (\<forall>(y, m)\<in>set (media_annuale df inq).
          m = Some (media_aritmetica
                (filter (\<lambda>r. inquinante r = inq \<and> anno r = Some y) df)))"
proof -
  let ?dfi = "filter (\<lambda>r. inquinante r = inq) df"
  have k: "map fst (media_annuale df inq) = sort (remdups (List.map_filter anno ?dfi))"
    by (simp add: media_annuale_def groupby_mean_chiavi)
  have a: "sorted (map fst (media_annuale df inq))" by (simp add: k)
  have b: "distinct (map fst (media_annuale df inq))" by (simp add: k)
  have c: "set (map fst (media_annuale df inq))
        = {y. \<exists>r\<in>set df. inquinante r = inq \<and> anno r = Some y}"
    unfolding k by (auto simp: set_chiavi)
  have nn: "\<forall>r\<in>set ?dfi. valore r \<noteq> None" using assms by simp
  have d: "\<forall>(y, m)\<in>set (media_annuale df inq).
          m = Some (media_aritmetica
                (filter (\<lambda>r. inquinante r = inq \<and> anno r = Some y) df))"
  proof (intro ballI, clarify)
    fix y m assume "(y, m) \<in> set (media_annuale df inq)"
    then have "(y, m) \<in> set (groupby_mean anno ?dfi)"
      by (simp add: media_annuale_def)
    from groupby_mean_presenti [OF nn this]
    show "m = Some (media_aritmetica
                (filter (\<lambda>r. inquinante r = inq \<and> anno r = Some y) df))"
      by (simp add: filter_inquinante)
  qed
  from a b c d show ?thesis by blast
qed

theorem media_annuale_corretta_witness:
  "list_all (\<lambda>r. valore r \<noteq> None) tabella_esempio
   \<and> media_annuale tabella_esempio ''PM10'' = [(2020, Some 40), (2021, Some 20)]
   \<and> set (map fst (media_annuale tabella_esempio ''PM10''))
        = {y. \<exists>r\<in>set tabella_esempio. inquinante r = ''PM10'' \<and> anno r = Some y}
   \<and> media_aritmetica
        (filter (\<lambda>r. inquinante r = ''PM10'' \<and> anno r = Some 2020) tabella_esempio) = 40"
proof -
  have h: "\<forall>r\<in>set tabella_esempio. valore r \<noteq> None"
    by (simp add: tabella_esempio_def u_defs)
  have v: "media_annuale tabella_esempio ''PM10'' = [(2020, Some 40), (2021, Some 20)]"
    by (simp add: media_annuale_def groupby_mean_def media_def tabella_esempio_def u_defs)
  from media_annuale_corretta [OF h, of "''PM10''"]
  have s: "set (map fst (media_annuale tabella_esempio ''PM10''))
        = {y. \<exists>r\<in>set tabella_esempio. inquinante r = ''PM10'' \<and> anno r = Some y}"
    and e: "\<forall>(y, m)\<in>set (media_annuale tabella_esempio ''PM10'').
          m = Some (media_aritmetica
                (filter (\<lambda>r. inquinante r = ''PM10'' \<and> anno r = Some y) tabella_esempio))"
    by blast+
  from e have "media_aritmetica
        (filter (\<lambda>r. inquinante r = ''PM10'' \<and> anno r = Some 2020) tabella_esempio) = 40"
    unfolding v by simp
  moreover have "list_all (\<lambda>r. valore r \<noteq> None) tabella_esempio"
    unfolding list_all_iff by (rule h)
  ultimately show ?thesis using v s by blast
qed


lemma hd_sorted_Min:
  assumes "sorted xs" and "xs \<noteq> []"
  shows "hd xs = Min (set xs)"
proof -
  from assms(2) obtain x ys where xs: "xs = x # ys" by (cases xs) auto
  with assms(1) have "\<forall>y\<in>set xs. x \<le> y" by auto
  then have "Min (set xs) = x"
    using xs by (intro Min_eqI) auto
  with xs show ?thesis by simp
qed

lemma last_sorted_Max:
  assumes "sorted xs" and "xs \<noteq> []"
  shows "last xs = Max (set xs)"
proof -
  have xs: "xs = butlast xs @ [last xs]" using assms(2) by simp
  then have "sorted (butlast xs @ [last xs])" using assms(1) by simp
  then have "\<forall>y\<in>set (butlast xs). y \<le> last xs"
    by (simp add: sorted_append)
  moreover have "set xs = insert (last xs) (set (butlast xs))"
    using xs by (metis list.simps(15) rotate1.simps(2) set_rotate1)
  ultimately have "Max (set xs) = last xs"
    by (intro Max_eqI) auto
  then show ?thesis by simp
qed

text \<open>
  C5. The annual means have as many entries as the pollutant has distinct years. With at
  most one entry no trend is written. With two or more, the first entry is the mean of
  the earliest year, the last entry the mean of the latest year, and the word is
  \<^verbatim>\<open>diminuito\<close> when last minus first is below zero and \<^verbatim>\<open>aumentato\<close> otherwise,
  so also when the difference is zero.
\<close>

theorem tendenza_corretta:
  assumes "\<forall>r\<in>set df. valore r \<noteq> None"
  shows "length (media_annuale df inq)
           = card {y. \<exists>r\<in>set df. inquinante r = inq \<and> anno r = Some y}
    \<and> (length (media_annuale df inq) \<le> 1 \<longrightarrow> tendenza (media_annuale df inq) = None)
    \<and> (2 \<le> length (media_annuale df inq) \<longrightarrow>
         (\<exists>primo ultimo.
            hd (media_annuale df inq)
              = (Min {y. \<exists>r\<in>set df. inquinante r = inq \<and> anno r = Some y}, Some primo)
          \<and> last (media_annuale df inq)
              = (Max {y. \<exists>r\<in>set df. inquinante r = inq \<and> anno r = Some y}, Some ultimo)
          \<and> tendenza (media_annuale df inq)
              = Some (if ultimo - primo < 0 then ''diminuito'' else ''aumentato'')))"
proof -
  let ?ma = "media_annuale df inq"
  let ?dfi = "filter (\<lambda>r. inquinante r = inq) df"
  let ?anni = "{y. \<exists>r\<in>set df. inquinante r = inq \<and> anno r = Some y}"
  have k: "map fst ?ma = sort (remdups (List.map_filter anno ?dfi))"
    by (simp add: media_annuale_def groupby_mean_chiavi)
  have sk: "set (map fst ?ma) = ?anni"
    unfolding k by (auto simp: set_chiavi)
  have "distinct (map fst ?ma)" by (simp add: k)
  then have "card (set (map fst ?ma)) = length (map fst ?ma)"
    by (rule distinct_card)
  then have a: "length ?ma = card ?anni" using sk by simp
  have b: "length ?ma \<le> 1 \<longrightarrow> tendenza ?ma = None"
    by (simp add: tendenza_def)
  have nn: "\<forall>r\<in>set ?dfi. valore r \<noteq> None" using assms by simp
  have c: "\<exists>primo ultimo.
            hd ?ma = (Min ?anni, Some primo) \<and> last ?ma = (Max ?anni, Some ultimo)
          \<and> tendenza ?ma = Some (if ultimo - primo < 0 then ''diminuito'' else ''aumentato'')"
    if l: "2 \<le> length ?ma"
  proof -
    from l have ne: "?ma \<noteq> []" by auto
    then have ne': "map fst ?ma \<noteq> []" by simp
    have so: "sorted (map fst ?ma)" by (simp add: k)
    have "fst (hd ?ma) = hd (map fst ?ma)" using ne by (simp add: hd_map)
    then have h1: "fst (hd ?ma) = Min ?anni"
      using hd_sorted_Min [OF so ne'] sk by simp
    have "fst (last ?ma) = last (map fst ?ma)" using ne by (simp add: last_map)
    then have l1: "fst (last ?ma) = Max ?anni"
      using last_sorted_Max [OF so ne'] sk by simp
    have "hd ?ma \<in> set (groupby_mean anno ?dfi)"
      using ne by (simp add: media_annuale_def)
    then have "(fst (hd ?ma), snd (hd ?ma)) \<in> set (groupby_mean anno ?dfi)" by simp
    from groupby_mean_presenti [OF nn this]
    obtain primo where p: "snd (hd ?ma) = Some primo" by blast
    have "last ?ma \<in> set (groupby_mean anno ?dfi)"
      using ne by (simp add: media_annuale_def)
    then have "(fst (last ?ma), snd (last ?ma)) \<in> set (groupby_mean anno ?dfi)" by simp
    from groupby_mean_presenti [OF nn this]
    obtain ultimo where u: "snd (last ?ma) = Some ultimo" by blast
    have t: "tendenza ?ma = Some (if ultimo - primo < 0 then ''diminuito'' else ''aumentato'')"
      using l p u by (simp add: tendenza_def)
    have "hd ?ma = (Min ?anni, Some primo)" using h1 p by (simp add: prod_eq_iff)
    moreover have "last ?ma = (Max ?anni, Some ultimo)" using l1 u by (simp add: prod_eq_iff)
    ultimately show ?thesis using t by blast
  qed
  from a b c show ?thesis by blast
qed

theorem tendenza_corretta_witness:
  "list_all (\<lambda>r. valore r \<noteq> None) tabella_esempio
   \<and> list_all (\<lambda>r. valore r \<noteq> None) tabella_pari
   \<and> 2 \<le> length (media_annuale tabella_esempio ''PM10'')
   \<and> tendenza (media_annuale tabella_esempio ''PM10'') = Some ''diminuito''
   \<and> 2 \<le> length (media_annuale tabella_pari ''PM10'')
   \<and> tendenza (media_annuale tabella_pari ''PM10'') = Some ''aumentato''
   \<and> length (media_annuale tabella_esempio ''NO2'') \<le> 1
   \<and> tendenza (media_annuale tabella_esempio ''NO2'') = None"
proof -
  have h: "\<forall>r\<in>set tabella_esempio. valore r \<noteq> None"
    by (simp add: tabella_esempio_def u_defs)
  have h': "\<forall>r\<in>set tabella_pari. valore r \<noteq> None"
    by (simp add: tabella_pari_def u_defs)
  have v1: "media_annuale tabella_esempio ''PM10'' = [(2020, Some 40), (2021, Some 20)]"
    by (simp add: media_annuale_def groupby_mean_def media_def tabella_esempio_def u_defs)
  have v2: "media_annuale tabella_pari ''PM10'' = [(2020, Some 30), (2021, Some 30)]"
    by (simp add: media_annuale_def groupby_mean_def media_def tabella_pari_def u_defs)
  have v3: "media_annuale tabella_esempio ''NO2'' = [(2022, Some 40)]"
    by (simp add: media_annuale_def groupby_mean_def media_def tabella_esempio_def u_defs)
  have a: "tendenza (media_annuale tabella_esempio ''PM10'') = Some ''diminuito''"
    using tendenza_corretta [OF h, of "''PM10''"] unfolding v1 by auto
  have b: "tendenza (media_annuale tabella_pari ''PM10'') = Some ''aumentato''"
    using tendenza_corretta [OF h', of "''PM10''"] unfolding v2 by auto
  have c: "tendenza (media_annuale tabella_esempio ''NO2'') = None"
    using tendenza_corretta [OF h, of "''NO2''"] unfolding v3 by auto
  have l: "list_all (\<lambda>r. valore r \<noteq> None) tabella_esempio"
    unfolding list_all_iff by (rule h)
  have l': "list_all (\<lambda>r. valore r \<noteq> None) tabella_pari"
    unfolding list_all_iff by (rule h')
  from l l' a b c show ?thesis by (simp add: v1 v2 v3)
qed

subsection \<open>Station ranking\<close>


lemma sort_values_desc_presenti:
  assumes "\<forall>p\<in>set xs. snd p \<noteq> None"
  shows "sort_values_desc xs = sort_key (\<lambda>p. - the (snd p)) xs"
proof -
  have "filter (\<lambda>p. snd p \<noteq> None) xs = xs" using assms by (simp add: filter_id_conv)
  moreover have "filter (\<lambda>p. snd p = None) xs = []" using assms by (simp add: filter_empty_conv)
  ultimately show ?thesis by (simp add: sort_values_desc_def)
qed

lemma sort_key_decrescente:
  "sorted_wrt (\<lambda>p q. f q \<le> (f p :: real)) (sort_key (\<lambda>p. - f p) xs)"
proof -
  have "sorted (map (\<lambda>p. - f p) (sort_key (\<lambda>p. - f p) xs))"
    by (rule sorted_sort_key)
  then show ?thesis by (simp add: sorted_wrt_map)
qed

lemma primi_sopra_resto:
  assumes "sorted_wrt R xs" and "x \<in> set (take n xs)" and "y \<in> set xs" and "y \<notin> set (take n xs)"
  shows "R x y"
proof -
  have "\<forall>a\<in>set (take n xs). \<forall>b\<in>set (drop n xs). R a b"
    using assms(1) sorted_wrt_append [of R "take n xs" "drop n xs"] by simp
  moreover have "y \<in> set (drop n xs)"
    using assms(3,4) by (metis Un_iff append_take_drop_id set_append)
  ultimately show ?thesis using assms(2) by blast
qed

text \<open>
  C6. On a table without missing values, the ranking of a pollutant has at most 5
  entries (5, or the number of stations with rows of that pollutant when that is
  smaller); each station name appears once; each entry is a station with rows of that
  pollutant, with the arithmetic average of the values of all its rows of that
  pollutant, whatever their year; the means are non-increasing along the list; and
  every station left out has a mean no greater than each mean listed.
\<close>

theorem media_stazioni_corretta:
  assumes "\<forall>r\<in>set df. valore r \<noteq> None"
  shows "length (media_stazioni df inq) \<le> 5
    \<and> length (media_stazioni df inq)
        = min 5 (card {n. \<exists>r\<in>set df. inquinante r = inq \<and> nome_stazione r = n})
    \<and> distinct (map fst (media_stazioni df inq))
    \<and> (\<forall>(n, m)\<in>set (media_stazioni df inq).
          (\<exists>r\<in>set df. inquinante r = inq \<and> nome_stazione r = n)
          \<and> m = Some (media_aritmetica
                  (filter (\<lambda>r. inquinante r = inq \<and> nome_stazione r = n) df)))
    \<and> sorted_wrt (\<lambda>p q. the (snd q) \<le> the (snd p)) (media_stazioni df inq)
    \<and> (\<forall>n. (\<exists>r\<in>set df. inquinante r = inq \<and> nome_stazione r = n)
              \<and> n \<notin> fst ` set (media_stazioni df inq) \<longrightarrow>
          (\<forall>(n', m')\<in>set (media_stazioni df inq).
             media_aritmetica (filter (\<lambda>r. inquinante r = inq \<and> nome_stazione r = n) df)
               \<le> the m'))"
proof -
  let ?dfi = "filter (\<lambda>r. inquinante r = inq) df"
  let ?chiave = "\<lambda>r. Some (nome_stazione r)"
  let ?tutte = "groupby_mean ?chiave ?dfi"
  let ?ord = "sort_key (\<lambda>p. - the (snd p)) ?tutte"
  let ?ms = "media_stazioni df inq"
  let ?nomi = "{n. \<exists>r\<in>set df. inquinante r = inq \<and> nome_stazione r = n}"
  let ?gruppo = "\<lambda>n. filter (\<lambda>r. inquinante r = inq \<and> nome_stazione r = n) df"
  have nn: "\<forall>r\<in>set ?dfi. valore r \<noteq> None" using assms by simp
  have el: "m = Some (media_aritmetica (?gruppo n))" if "(n, m) \<in> set ?tutte" for n m
    using groupby_mean_presenti [OF nn that] by (simp add: filter_inquinante)
  have pres: "n \<in> ?nomi" if "(n, m) \<in> set ?tutte" for n m
    using that by (auto simp: groupby_mean_elem)
  have inv: "(n, Some (media_aritmetica (?gruppo n))) \<in> set ?tutte" if "n \<in> ?nomi" for n
  proof -
    from that obtain r where r: "r \<in> set ?dfi" "?chiave r = Some n" by auto
    then have g: "(n, media (map valore (filter (\<lambda>r. ?chiave r = Some n) ?dfi))) \<in> set ?tutte"
      unfolding groupby_mean_elem by blast
    from el [OF g] g show ?thesis by simp
  qed
  have "\<forall>p\<in>set ?tutte. snd p \<noteq> None"
  proof
    fix p assume "p \<in> set ?tutte"
    then have "(fst p, snd p) \<in> set ?tutte" by simp
    from el [OF this] show "snd p \<noteq> None" by simp
  qed
  then have ms: "?ms = take 5 ?ord"
    by (simp add: media_stazioni_def sort_values_desc_presenti)
  have k: "map fst ?tutte = sort (remdups (List.map_filter ?chiave ?dfi))"
    by (rule groupby_mean_chiavi)
  have sk: "set (map fst ?tutte) = ?nomi"
    unfolding k by (auto simp: set_chiavi)
  have dk: "distinct (map fst ?tutte)" by (simp add: k)
  then have "card (set (map fst ?tutte)) = length (map fst ?tutte)"
    by (rule distinct_card)
  then have len: "length ?tutte = card ?nomi" using sk by simp
  have a: "length ?ms \<le> 5" by (simp add: ms)
  have b: "length ?ms = min 5 (card ?nomi)" by (simp add: ms len min.commute)
  have "distinct ?tutte \<and> inj_on fst (set ?tutte)"
    using dk by (simp add: distinct_map)
  then have "distinct (map fst ?ord)"
    by (simp add: distinct_map)
  then have "distinct (take 5 (map fst ?ord))" by (rule distinct_take)
  then have c: "distinct (map fst ?ms)" by (simp add: ms take_map)
  have sub: "set ?ms \<subseteq> set ?tutte"
    using set_take_subset [of 5 ?ord] by (simp add: ms)
  have d: "\<forall>(n, m)\<in>set ?ms. (\<exists>r\<in>set df. inquinante r = inq \<and> nome_stazione r = n)
          \<and> m = Some (media_aritmetica (?gruppo n))"
  proof (intro ballI, clarify)
    fix n m assume "(n, m) \<in> set ?ms"
    then have t: "(n, m) \<in> set ?tutte" using sub by blast
    from pres [OF t] el [OF t]
    show "(\<exists>r\<in>set df. inquinante r = inq \<and> nome_stazione r = n)
          \<and> m = Some (media_aritmetica (?gruppo n))" by simp
  qed
  have so: "sorted_wrt (\<lambda>p q. the (snd q) \<le> the (snd p)) ?ord"
    by (rule sort_key_decrescente)
  then have e: "sorted_wrt (\<lambda>p q. the (snd q) \<le> the (snd p)) ?ms"
    by (simp add: ms sorted_wrt_take)
  have f0: "media_aritmetica (?gruppo n) \<le> the m'"
    if n: "n \<in> ?nomi" and nin: "n \<notin> fst ` set ?ms" and p: "(n', m') \<in> set ?ms"
    for n n' m'
  proof -
    let ?q = "(n, Some (media_aritmetica (?gruppo n)))"
    have "?q \<in> set ?tutte" using n by (rule inv)
    then have q: "?q \<in> set ?ord" by simp
    have "?q \<notin> set ?ms" using nin by force
    then have "?q \<notin> set (take 5 ?ord)" by (simp add: ms)
    moreover have "(n', m') \<in> set (take 5 ?ord)" using p by (simp add: ms)
    ultimately have "the (snd ?q) \<le> the (snd (n', m'))"
      using primi_sopra_resto [OF so, of "(n', m')" 5 ?q] q by blast
    then show ?thesis by simp
  qed
  have f: "\<forall>n. (\<exists>r\<in>set df. inquinante r = inq \<and> nome_stazione r = n)
              \<and> n \<notin> fst ` set ?ms \<longrightarrow>
          (\<forall>(n', m')\<in>set ?ms. media_aritmetica (?gruppo n) \<le> the m')"
  proof (intro allI impI ballI)
    fix n p
    assume h: "(\<exists>r\<in>set df. inquinante r = inq \<and> nome_stazione r = n)
              \<and> n \<notin> fst ` set ?ms" and p: "p \<in> set ?ms"
    from h have "n \<in> ?nomi" and "n \<notin> fst ` set ?ms" by simp_all
    moreover from p have "(fst p, snd p) \<in> set ?ms" by simp
    ultimately have "media_aritmetica (?gruppo n) \<le> the (snd p)" by (rule f0)
    then show "case p of (n', m') \<Rightarrow> media_aritmetica (?gruppo n) \<le> the m'"
      by (simp add: case_prod_beta)
  qed
  from a b c d e f show ?thesis by blast
qed



theorem media_stazioni_corretta_witness:
  "list_all (\<lambda>r. valore r \<noteq> None) tabella_esempio
   \<and> media_stazioni tabella_esempio ''PM10'' = [(''Senato'', Some 50), (''Verziere'', Some 25)]
   \<and> length (media_stazioni tabella_esempio ''PM10'') \<le> 5
   \<and> media_aritmetica
        (filter (\<lambda>r. inquinante r = ''PM10'' \<and> nome_stazione r = ''Verziere'') tabella_esempio)
       = 25
   \<and> sorted_wrt (\<lambda>p q. the (snd q) \<le> the (snd p)) (media_stazioni tabella_esempio ''PM10'')
   \<and> list_all (\<lambda>r. valore r \<noteq> None) tabella_sei
   \<and> media_stazioni tabella_sei ''O3'' =
       [(''Senato'', Some 55), (''Liguria'', Some 50), (''Abbiategrasso'', Some 40),
        (''Marche'', Some 30), (''Pascal'', Some 20)]
   \<and> length (media_stazioni tabella_sei ''O3'') \<le> 5"
proof -
  have h6: "\<forall>r\<in>set tabella_sei. valore r \<noteq> None"
    by (simp add: tabella_sei_def riga_o3_def)
  have l6: "list_all (\<lambda>r. valore r \<noteq> None) tabella_sei"
    unfolding list_all_iff by (rule h6)
  have v6: "media_stazioni tabella_sei ''O3'' =
       [(''Senato'', Some 55), (''Liguria'', Some 50), (''Abbiategrasso'', Some 40),
        (''Marche'', Some 30), (''Pascal'', Some 20)]"
    by (simp add: media_stazioni_def sort_values_desc_def groupby_mean_def media_def
        tabella_sei_def riga_o3_def)
  from media_stazioni_corretta [OF h6, of "''O3''"]
  have n6: "length (media_stazioni tabella_sei ''O3'') \<le> 5" by blast
  have h: "\<forall>r\<in>set tabella_esempio. valore r \<noteq> None"
    by (simp add: tabella_esempio_def u_defs)
  have v: "media_stazioni tabella_esempio ''PM10''
      = [(''Senato'', Some 50), (''Verziere'', Some 25)]"
    by (simp add: media_stazioni_def sort_values_desc_def groupby_mean_def media_def
        tabella_esempio_def u_defs)
  from media_stazioni_corretta [OF h, of "''PM10''"]
  have l: "length (media_stazioni tabella_esempio ''PM10'') \<le> 5"
    and e: "\<forall>(n, m)\<in>set (media_stazioni tabella_esempio ''PM10'').
          (\<exists>r\<in>set tabella_esempio. inquinante r = ''PM10'' \<and> nome_stazione r = n)
          \<and> m = Some (media_aritmetica
                  (filter (\<lambda>r. inquinante r = ''PM10'' \<and> nome_stazione r = n) tabella_esempio))"
    and s: "sorted_wrt (\<lambda>p q. the (snd q) \<le> the (snd p))
              (media_stazioni tabella_esempio ''PM10'')"
    by blast+
  from e have "media_aritmetica
        (filter (\<lambda>r. inquinante r = ''PM10'' \<and> nome_stazione r = ''Verziere'') tabella_esempio)
       = 25"
    unfolding v by simp
  moreover have "list_all (\<lambda>r. valore r \<noteq> None) tabella_esempio"
    unfolding list_all_iff by (rule h)
  ultimately show ?thesis using v l s l6 v6 n6 by blast
qed

subsection \<open>Detail of the latest year\<close>



lemma anno_corrente_Some:
  assumes "r \<in> set df" and "anno r = Some y"
  shows "anno r = anno_corrente df \<longleftrightarrow> (\<forall>r'\<in>set df. \<forall>y'. anno r' = Some y' \<longrightarrow> y' \<le> y)"
proof -
  let ?anni = "List.map_filter anno df"
  have s: "set ?anni = {k. \<exists>r\<in>set df. anno r = Some k}" by (rule set_chiavi)
  then have y: "y \<in> set ?anni" using assms by blast
  then have ne: "?anni \<noteq> []" by auto
  then have ac: "anno_corrente df = Some (Max (set ?anni))"
    by (simp add: anno_corrente_def)
  have "y = Max (set ?anni) \<longleftrightarrow> (\<forall>y'\<in>set ?anni. y' \<le> y)"
    using y by (auto intro: Max_eqI [symmetric])
  also have "\<dots> \<longleftrightarrow> (\<forall>r'\<in>set df. \<forall>y'. anno r' = Some y' \<longrightarrow> y' \<le> y)"
    unfolding s by blast
  finally show ?thesis using assms(2) ac by simp
qed

lemma selezione_iff:
  assumes "r \<in> set df"
  shows "selezione df staz inq r \<longleftrightarrow>
     nome_stazione r = staz \<and> inquinante r = inq
     \<and> (\<exists>y. anno r = Some y \<and> (\<forall>r'\<in>set df. \<forall>y'. anno r' = Some y' \<longrightarrow> y' \<le> y))"
proof (cases "anno r")
  case None
  then show ?thesis by (simp add: selezione_def)
next
  case (Some y)
  then show ?thesis
    using anno_corrente_Some [OF assms Some] by (simp add: selezione_def)
qed

lemma mset_sort_values_data: "mset (sort_values_data xs) = mset xs"
proof -
  have "mset (sort_values_data xs)
      = mset (filter (\<lambda>r. data r \<noteq> None) xs) + mset (filter (\<lambda>r. \<not> data r \<noteq> None) xs)"
    by (simp add: sort_values_data_def)
  then show ?thesis by (simp only: mset_filter multiset_partition [symmetric])
qed

lemma sort_values_data_presenti:
  assumes "\<forall>r\<in>set xs. data r \<noteq> None"
  shows "sort_values_data xs = sort_key (\<lambda>r. the (data r)) xs"
proof -
  have "filter (\<lambda>r. data r \<noteq> None) xs = xs" using assms by (simp add: filter_id_conv)
  moreover have "filter (\<lambda>r. data r = None) xs = []" using assms by (simp add: filter_empty_conv)
  ultimately show ?thesis by (simp add: sort_values_data_def)
qed

text \<open>
  C7. On a table whose rows carry the year of their timestamp (what \<^verbatim>\<open>prepara_dati\<close>
  returns), the detail of a station and pollutant holds exactly the rows of the table,
  each as often as it occurs there, with that station name, that pollutant and a year
  that no row of the whole table exceeds, whatever its station or pollutant; every
  selected row has a timestamp, and the rows are in ascending order of timestamp.
\<close>

theorem df_focus_corretto:
  assumes "\<forall>r\<in>set df. anno r = map_option anno_di (data r)"
  shows "mset (df_focus df staz inq)
      = mset (filter (\<lambda>r. nome_stazione r = staz \<and> inquinante r = inq
                \<and> (\<exists>y. anno r = Some y
                      \<and> (\<forall>r'\<in>set df. \<forall>y'. anno r' = Some y' \<longrightarrow> y' \<le> y))) df)
    \<and> (\<forall>r\<in>set (df_focus df staz inq). data r \<noteq> None)
    \<and> sorted (map (\<lambda>r. the (data r)) (df_focus df staz inq))"
proof -
  let ?P = "\<lambda>r. nome_stazione r = staz \<and> inquinante r = inq
                \<and> (\<exists>y. anno r = Some y
                      \<and> (\<forall>r'\<in>set df. \<forall>y'. anno r' = Some y' \<longrightarrow> y' \<le> y))"
  let ?xs = "filter (selezione df staz inq) df"
  have eq: "?xs = filter ?P df"
    by (rule filter_cong) (simp_all add: selezione_iff)
  have a: "mset (df_focus df staz inq) = mset (filter ?P df)"
    by (simp only: df_focus_def mset_sort_values_data eq)
  have pres: "\<forall>r\<in>set ?xs. data r \<noteq> None"
  proof
    fix r assume "r \<in> set ?xs"
    then have "r \<in> set df" and "selezione df staz inq r" by simp_all
    then have "r \<in> set df" and "anno r \<noteq> None" unfolding selezione_def by blast+
    with assms show "data r \<noteq> None" by auto
  qed
  then have f: "df_focus df staz inq = sort_key (\<lambda>r. the (data r)) ?xs"
    by (simp only: df_focus_def sort_values_data_presenti)
  have b: "\<forall>r\<in>set (df_focus df staz inq). data r \<noteq> None"
    using pres by (simp add: f)
  have c: "sorted (map (\<lambda>r. the (data r)) (df_focus df staz inq))"
    unfolding f by (rule sorted_sort_key)
  from a b c show ?thesis by blast
qed

theorem df_focus_corretto_witness:
  "list_all (\<lambda>r. anno r = map_option anno_di (data r)) tabella_esempio
   \<and> df_focus tabella_esempio ''Senato'' ''NO2'' = [u5, u4]
   \<and> df_focus tabella_esempio ''Verziere'' ''PM10'' = []
   \<and> filter (\<lambda>r. nome_stazione r = ''Verziere'' \<and> inquinante r = ''PM10'') tabella_esempio
       = [u1, u2]
   \<and> sorted (map (\<lambda>r. the (data r)) (df_focus tabella_esempio ''Senato'' ''NO2''))"
proof -
  have h: "\<forall>r\<in>set tabella_esempio. anno r = map_option anno_di (data r)"
    by (simp add: tabella_esempio_def u_defs anno_di_def)
  have v1: "df_focus tabella_esempio ''Senato'' ''NO2'' = [u5, u4]"
    by (simp add: df_focus_def selezione_def anno_corrente_def sort_values_data_def
        tabella_esempio_def u_defs)
  have v2: "filter (\<lambda>r. nome_stazione r = ''Verziere'' \<and> inquinante r = ''PM10'')
      tabella_esempio = [u1, u2]"
    by (simp add: tabella_esempio_def u_defs)
  have p: "filter (\<lambda>r. nome_stazione r = ''Verziere'' \<and> inquinante r = ''PM10''
                \<and> (\<exists>y. anno r = Some y
                      \<and> (\<forall>r'\<in>set tabella_esempio. \<forall>y'. anno r' = Some y' \<longrightarrow> y' \<le> y)))
             tabella_esempio = []"
    by (simp add: tabella_esempio_def u_defs)
  from df_focus_corretto [OF h, of "''Verziere''" "''PM10''"]
  have "mset (df_focus tabella_esempio ''Verziere'' ''PM10'') = {#}"
    unfolding p by simp
  then have v3: "df_focus tabella_esempio ''Verziere'' ''PM10'' = []" by simp
  from df_focus_corretto [OF h, of "''Senato''" "''NO2''"]
  have s: "sorted (map (\<lambda>r. the (data r)) (df_focus tabella_esempio ''Senato'' ''NO2''))"
    by blast
  have l: "list_all (\<lambda>r. anno r = map_option anno_di (data r)) tabella_esempio"
    unfolding list_all_iff by (rule h)
  from l v1 v2 v3 s show ?thesis by blast
qed

text \<open>
  C8. The detail is empty exactly when no row of the table has the station, the
  pollutant and the year \<^verbatim>\<open>anno_corrente\<close> (none when \<^verbatim>\<open>anno_corrente\<close> is NaN, as on
  an empty table). An empty detail is shown as the warning
  \<^verbatim>\<open>Nessun dato disponibile per la selezione effettuata.\<close>, a non-empty one as the
  chart of its rows. The query has no other outcome: none of its operations raises.
\<close>

theorem dettaglio_senza_dati:
  "(df_focus df staz inq = [] \<longleftrightarrow>
      (\<forall>r\<in>set df. \<not> (nome_stazione r = staz \<and> inquinante r = inq
                        \<and> anno r \<noteq> None \<and> anno r = anno_corrente df)))
   \<and> (df_focus df staz inq = [] \<longrightarrow>
        dettaglio df staz inq = Avviso ''Nessun dato disponibile per la selezione effettuata.'')
   \<and> (df_focus df staz inq \<noteq> [] \<longrightarrow>
        dettaglio df staz inq
          = Grafico (map (\<lambda>r. (data r, valore r)) (df_focus df staz inq)))"
proof -
  have "df_focus df staz inq = [] \<longleftrightarrow> mset (df_focus df staz inq) = {#}" by simp
  also have "\<dots> \<longleftrightarrow> filter (selezione df staz inq) df = []"
    by (simp only: df_focus_def mset_sort_values_data mset_zero_iff)
  also have "\<dots> \<longleftrightarrow> (\<forall>r\<in>set df. \<not> (nome_stazione r = staz \<and> inquinante r = inq
                        \<and> anno r \<noteq> None \<and> anno r = anno_corrente df))"
    by (simp only: filter_empty_conv selezione_def)
  finally have a: "df_focus df staz inq = [] \<longleftrightarrow>
      (\<forall>r\<in>set df. \<not> (nome_stazione r = staz \<and> inquinante r = inq
                        \<and> anno r \<noteq> None \<and> anno r = anno_corrente df))" .
  have b: "df_focus df staz inq = [] \<longrightarrow>
        dettaglio df staz inq = Avviso ''Nessun dato disponibile per la selezione effettuata.''"
    by (simp add: dettaglio_def)
  have c: "df_focus df staz inq \<noteq> [] \<longrightarrow>
        dettaglio df staz inq
          = Grafico (map (\<lambda>r. (data r, valore r)) (df_focus df staz inq))"
    by (simp add: dettaglio_def Let_def)
  from a b c show ?thesis by blast
qed

theorem dettaglio_senza_dati_witness:
  "list_all (\<lambda>r. \<not> (nome_stazione r = ''Verziere'' \<and> inquinante r = ''NO2''
        \<and> anno r \<noteq> None \<and> anno r = anno_corrente tabella_esempio)) tabella_esempio
   \<and> dettaglio tabella_esempio ''Verziere'' ''NO2''
        = Avviso ''Nessun dato disponibile per la selezione effettuata.''
   \<and> dettaglio [] ''Verziere'' ''NO2''
        = Avviso ''Nessun dato disponibile per la selezione effettuata.''
   \<and> df_focus tabella_esempio ''Senato'' ''NO2'' \<noteq> []
   \<and> dettaglio tabella_esempio ''Senato'' ''NO2''
        = Grafico [(Some (2022, 3), Some 39), (Some (2022, 12), Some 41)]"
proof -
  have h: "\<forall>r\<in>set tabella_esempio. \<not> (nome_stazione r = ''Verziere'' \<and> inquinante r = ''NO2''
        \<and> anno r \<noteq> None \<and> anno r = anno_corrente tabella_esempio)"
    by (simp add: tabella_esempio_def u_defs)
  have h0: "\<forall>r\<in>set []. \<not> (nome_stazione r = ''Verziere'' \<and> inquinante r = ''NO2''
        \<and> anno r \<noteq> None \<and> anno r = anno_corrente [])"
    by simp
  have a: "dettaglio tabella_esempio ''Verziere'' ''NO2''
        = Avviso ''Nessun dato disponibile per la selezione effettuata.''"
    using h dettaglio_senza_dati [of tabella_esempio "''Verziere''" "''NO2''"] by blast
  have b: "dettaglio [] ''Verziere'' ''NO2''
        = Avviso ''Nessun dato disponibile per la selezione effettuata.''"
    using h0 dettaglio_senza_dati [of "[]" "''Verziere''" "''NO2''"] by blast
  have v: "df_focus tabella_esempio ''Senato'' ''NO2'' = [u5, u4]"
    by (simp add: df_focus_def selezione_def anno_corrente_def sort_values_data_def
        tabella_esempio_def u_defs)
  then have ne: "df_focus tabella_esempio ''Senato'' ''NO2'' \<noteq> []" by simp
  have "dettaglio tabella_esempio ''Senato'' ''NO2''
        = Grafico (map (\<lambda>r. (data r, valore r)) (df_focus tabella_esempio ''Senato'' ''NO2''))"
    using ne dettaglio_senza_dati [of tabella_esempio "''Senato''" "''NO2''"] by blast
  then have c: "dettaglio tabella_esempio ''Senato'' ''NO2''
        = Grafico [(Some (2022, 3), Some 39), (Some (2022, 12), Some 41)]"
    by (simp add: v u_defs)
  have l: "list_all (\<lambda>r. \<not> (nome_stazione r = ''Verziere'' \<and> inquinante r = ''NO2''
        \<and> anno r \<noteq> None \<and> anno r = anno_corrente tabella_esempio)) tabella_esempio"
    unfolding list_all_iff by (rule h)
  from l a b ne c show ?thesis by blast
qed

end
